theory Spec2Isabelle
  imports Complex_Main
begin

section \<open>Control channel engine (class DroneControls)\<close>

text \<open>
  JavaScript numbers are modelled as real numbers: the model is the exact-arithmetic
  reading of the code, without NaN, infinities or rounding. Timestamps returned by
  \<^verbatim>\<open>performance.now()\<close> are passed to the operations that read the clock.
\<close>

subsection \<open>State\<close>

record channelState =
  roll :: real
  pitch :: real
  yaw :: real
  throttle :: real

record motorState =
  motor1 :: real
  motor2 :: real
  motor3 :: real
  motor4 :: real

text \<open>
  A script action is a closure that receives the controls object. The model hands it
  the channel and motor-thrust state, which it may change in any way; it may print
  lines of its own, and it either returns or throws (changes made before the throw stay).
  Closures that reach other parts of the object (script tables, running instances, key
  states) are outside the model.
\<close>

record handle =
  channels :: channelState
  motorThrusts :: motorState

datatype outcome = Returned | Threw

type_synonym callback = "handle \<Rightarrow> string list \<times> outcome \<times> handle"

record scriptAction =
  time :: real
  action :: callback

record scriptInstance =
  instId :: string
  actions :: "scriptAction list"
  startTime :: real
  nextActionIndex :: nat

text \<open>The lines the engine writes to the console, with the values they interpolate.\<close>

datatype consoleLine =
    ErrorNotArray
  | ErrorBadAction
  | LogRegistered string
  | LogStarted string
  | WarnNotFound string
  | LogExecuted nat string real
  | ErrorExecuting nat string
  | ErrorUnknownScript string string
  | LogBound string string
  | CallbackOutput string

text \<open>
  The objects \<^verbatim>\<open>keyStates\<close>, \<^verbatim>\<open>scripts\<close> and \<^verbatim>\<open>scriptBindings\<close> are used as dictionaries
  with string keys; a missing key reads as \<^verbatim>\<open>undefined\<close>. Keys that name a property
  inherited from \<^verbatim>\<open>Object.prototype\<close> (such as \<^verbatim>\<open>constructor\<close>) are outside the model.
\<close>

record controls = handle +
  keyStates :: "string \<rightharpoonup> bool"
  controlRate :: real
  scripts :: "string \<rightharpoonup> scriptAction list"
  scriptBindings :: "string \<rightharpoonup> string"
  activeScripts :: "scriptInstance list"
  console :: "consoleLine list"

text \<open>The gamepad handler is a collaborator: its state is an input of every update.\<close>

record gamepad =
  connected :: bool
  axes :: "real \<times> real \<times> real \<times> real"

subsection \<open>JavaScript values passed to \<^verbatim>\<open>registerScript\<close>\<close>

datatype jsval =
    JUndefined
  | JNull
  | JBoolean bool
  | JNumber real
  | JString string
  | JFunction callback
  | JObject "(string \<times> jsval) list"
  | JArray "jsval list"

datatype exn = TypeError

text \<open>
  Reading a property of \<^verbatim>\<open>null\<close> or \<^verbatim>\<open>undefined\<close> throws; on any other value that
  does not carry the property the result is \<^verbatim>\<open>undefined\<close>. Only the properties
  \<^verbatim>\<open>time\<close> and \<^verbatim>\<open>action\<close> are ever read, which no primitive, array or function defines.
\<close>

fun getProp :: "jsval \<Rightarrow> string \<Rightarrow> exn + jsval" where
  "getProp JUndefined p = Inl TypeError"
| "getProp JNull p = Inl TypeError"
| "getProp (JObject ps) p = Inr (case map_of ps p of None \<Rightarrow> JUndefined | Some v \<Rightarrow> v)"
| "getProp v p = Inr JUndefined"

text \<open>Truthiness of a dictionary read, for the three tables of the engine.\<close>

definition truthyBool :: "bool option \<Rightarrow> bool" where
  "truthyBool v = (v = Some True)"

definition truthyString :: "string option \<Rightarrow> bool" where
  "truthyString v = (case v of None \<Rightarrow> False | Some str \<Rightarrow> str \<noteq> [])"

definition truthyArray :: "'a list option \<Rightarrow> bool" where
  "truthyArray v = (case v of None \<Rightarrow> False | Some arr \<Rightarrow> True)"

subsection \<open>Helpers\<close>

text \<open>
  \<^verbatim>\<open>moveTowardsCenter\<close> is always called with its default rate and does not use its
  \<^verbatim>\<open>min\<close> and \<^verbatim>\<open>max\<close> parameters; \<^verbatim>\<open>moveTowardsZero\<close> is called with its default rate.
\<close>

definition clampValue :: "real \<Rightarrow> real \<Rightarrow> real \<Rightarrow> real" where
  "clampValue v lo hi = max lo (min hi v)"

definition moveTowardsCenter :: "real \<Rightarrow> real" where
  "moveTowardsCenter v =
     (let center = 0; rate = 0.005
      in if v > center then max center (v - rate) else min center (v + rate))"

definition moveTowardsZero :: "real \<Rightarrow> real" where
  "moveTowardsZero v = (let rate = 0.005 in max 0 (v - rate))"

subsection \<open>Script registration and key binding\<close>

text \<open>
  The validation loop of \<^verbatim>\<open>registerScript\<close>: \<open>Inl\<close> when reading \<^verbatim>\<open>action.time\<close> throws,
  \<open>Inr None\<close> when an entry fails the check, \<open>Inr (Some as)\<close> with the entries read
  when all pass.
\<close>

fun validateActions :: "jsval list \<Rightarrow> exn + scriptAction list option" where
  "validateActions [] = Inr (Some [])"
| "validateActions (e # es) =
     (case getProp e ''time'' of
        Inl err \<Rightarrow> Inl err
      | Inr (JNumber t) \<Rightarrow>
          (case getProp e ''action'' of
             Inl err \<Rightarrow> Inl err
           | Inr (JFunction f) \<Rightarrow>
               (case validateActions es of
                  Inl err \<Rightarrow> Inl err
                | Inr None \<Rightarrow> Inr None
                | Inr (Some as) \<Rightarrow> Inr (Some (\<lparr>time = t, action = f\<rparr> # as)))
           | Inr _ \<Rightarrow> Inr None)
      | Inr _ \<Rightarrow> Inr None)"

text \<open>
  \<^verbatim>\<open>registerScript\<close> returns \<open>Inl\<close> when it throws; nothing has been written then.
\<close>

definition registerScript :: "string \<Rightarrow> jsval \<Rightarrow> controls \<Rightarrow> exn + controls" where
  "registerScript scriptId scriptActions s =
     (case scriptActions of
        JArray es \<Rightarrow>
          (case validateActions es of
             Inl err \<Rightarrow> Inl err
           | Inr None \<Rightarrow> Inr (s\<lparr>console := console s @ [ErrorBadAction]\<rparr>)
           | Inr (Some as) \<Rightarrow>
               Inr (s\<lparr>scripts := (scripts s)(scriptId \<mapsto> as),
                      console := console s @ [LogRegistered scriptId]\<rparr>))
      | _ \<Rightarrow> Inr (s\<lparr>console := console s @ [ErrorNotArray]\<rparr>))"

definition bindKeyToScript :: "string \<Rightarrow> string \<Rightarrow> controls \<Rightarrow> controls" where
  "bindKeyToScript keyCode scriptId s =
     (if \<not> truthyArray (scripts s scriptId)
      then s\<lparr>console := console s @ [ErrorUnknownScript keyCode scriptId]\<rparr>
      else s\<lparr>scriptBindings := (scriptBindings s)(keyCode \<mapsto> scriptId),
             console := console s @ [LogBound keyCode scriptId]\<rparr>)"

definition executeScript :: "string \<Rightarrow> real \<Rightarrow> controls \<Rightarrow> controls" where
  "executeScript scriptId now s =
     (case scripts s scriptId of
        Some script \<Rightarrow>
          s\<lparr>activeScripts := activeScripts s @
               [\<lparr>instId = scriptId, actions = script, startTime = now, nextActionIndex = 0\<rparr>],
            console := console s @ [LogStarted scriptId]\<rparr>
      | None \<Rightarrow> s\<lparr>console := console s @ [WarnNotFound scriptId]\<rparr>)"

subsection \<open>Keyboard events\<close>

text \<open>
  Both handlers test the binding of the key for truthiness: a key without a binding and a key
  bound to the empty id take the branch of the control keys. In the other branch the binding
  is read again; it is \<open>Some\<close> id there.
\<close>

definition onKeyDown :: "string \<Rightarrow> real \<Rightarrow> controls \<Rightarrow> controls" where
  "onKeyDown key now s =
     (if truthyString (scriptBindings s key)
      then executeScript (the (scriptBindings s key)) now s
      else s\<lparr>keyStates := (keyStates s)(key \<mapsto> True)\<rparr>)"

definition onKeyUp :: "string \<Rightarrow> controls \<Rightarrow> controls" where
  "onKeyUp key s =
     (if \<not> truthyString (scriptBindings s key)
      then s\<lparr>keyStates := (keyStates s)(key \<mapsto> False)\<rparr>
      else s)"

subsection \<open>Per-tick update\<close>

text \<open>
  Every statement of the two keyboard functions reads and writes one field of
  \<^verbatim>\<open>this.channels\<close> or \<^verbatim>\<open>this.motorThrusts\<close>; the local names below are the successive
  values of these fields, in the order of the statements.
\<close>

definition centerUnusedControls :: "controls \<Rightarrow> controls" where
  "centerUnusedControls s =
     (let k = keyStates s;
          c = channels s;
          yaw1 = (if \<not> truthyBool (k ''KeyA'') \<and> \<not> truthyBool (k ''KeyD'')
                  then moveTowardsCenter (yaw c) else yaw c);
          pitch1 = (if \<not> truthyBool (k ''ArrowRight'') \<and> \<not> truthyBool (k ''ArrowLeft'')
                    then moveTowardsCenter (pitch c) else pitch c);
          roll1 = (if \<not> truthyBool (k ''ArrowDown'') \<and> \<not> truthyBool (k ''ArrowUp'')
                   then moveTowardsCenter (roll c) else roll c);
          throttle1 = (if \<not> truthyBool (k ''KeyW'') \<and> \<not> truthyBool (k ''KeyX'')
                       then moveTowardsZero (throttle c) else throttle c)
      in s\<lparr>channels := \<lparr>roll = roll1, pitch = pitch1, yaw = yaw1, throttle = throttle1\<rparr>\<rparr>)"

definition updateKeyboardControls :: "controls \<Rightarrow> controls" where
  "updateKeyboardControls s =
     (let k = keyStates s;
          r = controlRate s;
          c = channels s;
          yaw1 = (if truthyBool (k ''KeyA'') then clampValue (yaw c - r) (-1) 1 else yaw c);
          yaw2 = (if truthyBool (k ''KeyD'') then clampValue (yaw1 + r) (-1) 1 else yaw1);
          pitch1 = (if truthyBool (k ''ArrowRight'')
                    then clampValue (pitch c + r) (-1) 1 else pitch c);
          pitch2 = (if truthyBool (k ''ArrowLeft'')
                    then clampValue (pitch1 - r) (-1) 1 else pitch1);
          roll1 = (if truthyBool (k ''ArrowDown'')
                   then clampValue (roll c - r) (-1) 1 else roll c);
          roll2 = (if truthyBool (k ''ArrowUp'')
                   then clampValue (roll1 + r) (-1) 1 else roll1);
          throttle1 = (if truthyBool (k ''KeyW'')
                       then clampValue (throttle c + r) 0 1 else throttle c);
          throttle2 = (if truthyBool (k ''KeyX'')
                       then clampValue (throttle1 - r) 0 1 else throttle1);
          m = motorThrusts s;
          m1 = (if truthyBool (k ''Digit1'')
                then clampValue (motor1 m + r) 0 1 else clampValue (motor1 m - r) 0 1);
          m2 = (if truthyBool (k ''Digit2'')
                then clampValue (motor2 m + r) 0 1 else clampValue (motor2 m - r) 0 1);
          m3 = (if truthyBool (k ''Digit3'')
                then clampValue (motor3 m + r) 0 1 else clampValue (motor3 m - r) 0 1);
          m4 = (if truthyBool (k ''Digit4'')
                then clampValue (motor4 m + r) 0 1 else clampValue (motor4 m - r) 0 1)
      in centerUnusedControls
           (s\<lparr>channels := \<lparr>roll = roll2, pitch = pitch2, yaw = yaw2, throttle = throttle2\<rparr>,
              motorThrusts := \<lparr>motor1 = m1, motor2 = m2, motor3 = m3, motor4 = m4\<rparr>\<rparr>))"

text \<open>
  In gamepad mode the four axes are assigned; the frame time \<^verbatim>\<open>deltaTime\<close> is passed on and
  never read.
\<close>

definition updateControlChannels :: "gamepad \<Rightarrow> real \<Rightarrow> controls \<Rightarrow> controls" where
  "updateControlChannels pad deltaTime s =
     (case axes pad of (a0, a1, a2, a3) \<Rightarrow>
        if connected pad
        then s\<lparr>channels := \<lparr>roll = clampValue a0 (-1) 1,
                             pitch = clampValue a1 (-1) 1,
                             yaw = clampValue a2 (-1) 1,
                             throttle = clampValue ((a3 + 1) / 2) 0 1\<rparr>\<rparr>
        else updateKeyboardControls s)"

text \<open>
  One call of a script action inside the \<^verbatim>\<open>try\<close> block, followed by the increment of the
  cursor: the closure runs on the channel and motor state; a return is logged, a throw is
  caught and reported.
\<close>

definition runAction :: "controls \<times> scriptInstance \<Rightarrow> real \<Rightarrow> controls \<times> scriptInstance" where
  "runAction si elapsedTime =
     (case si of (s, inst) \<Rightarrow>
        let i = nextActionIndex inst;
            (out, res, h) = action (actions inst ! i) (handle.truncate s);
            report = (case res of
                        Returned \<Rightarrow> LogExecuted (i + 1) (instId inst) elapsedTime
                      | Threw \<Rightarrow> ErrorExecuting (i + 1) (instId inst))
        in (s\<lparr>channels := channels h, motorThrusts := motorThrusts h,
              console := console s @ map CallbackOutput out @ [report]\<rparr>,
            inst\<lparr>nextActionIndex := i + 1\<rparr>))"

text \<open>The \<^verbatim>\<open>while\<close> loop over the actions of one instance that are due.\<close>

function whileDue :: "real \<Rightarrow> controls \<times> scriptInstance \<Rightarrow> controls \<times> scriptInstance" where
  "whileDue elapsedTime si =
     (if nextActionIndex (snd si) < length (actions (snd si)) \<and>
         elapsedTime \<ge> time (actions (snd si) ! nextActionIndex (snd si))
      then whileDue elapsedTime (runAction si elapsedTime)
      else si)"
  by pat_completeness auto
termination
  by (relation "measure (\<lambda>(e, si). length (actions (snd si)) - nextActionIndex (snd si))")
     (auto simp: runAction_def Let_def split: prod.splits)

text \<open>
  The \<^verbatim>\<open>filter\<close> over the running instances: each one is advanced in list order, and kept
  when actions remain.
\<close>

fun filterActive :: "real \<Rightarrow> scriptInstance list \<Rightarrow> controls \<Rightarrow> scriptInstance list \<times> controls" where
  "filterActive currentTime [] s = ([], s)"
| "filterActive currentTime (inst # rest) s =
     (let (s1, inst1) = whileDue (currentTime - startTime inst) (s, inst);
          (kept, s2) = filterActive currentTime rest s1
      in (if nextActionIndex inst1 < length (actions inst1) then inst1 # kept else kept, s2))"

definition updateActiveScripts :: "real \<Rightarrow> real \<Rightarrow> controls \<Rightarrow> controls" where
  "updateActiveScripts deltaTime currentTime s =
     (let (kept, s1) = filterActive currentTime (activeScripts s) s
      in s1\<lparr>activeScripts := kept\<rparr>)"

text \<open>
  \<^verbatim>\<open>update\<close> polls the gamepad, whose state is the argument \<open>pad\<close>, then updates the channels
  and then the running scripts; \<open>now\<close> is the clock read by \<^verbatim>\<open>updateActiveScripts\<close>.
\<close>

definition update :: "gamepad \<Rightarrow> real \<Rightarrow> real \<Rightarrow> controls \<Rightarrow> controls" where
  "update pad deltaTime now s =
     updateActiveScripts deltaTime now (updateControlChannels pad deltaTime s)"

text \<open>The snapshot: the four channels and the four motor thrusts, copied.\<close>

definition getControlInputs :: "controls \<Rightarrow> channelState \<times> motorState" where
  "getControlInputs s = (channels s, motorThrusts s)"

subsection \<open>Construction\<close>

text \<open>
  The two default scripts, as the array literals passed to \<^verbatim>\<open>registerScript\<close>; each action
  prints one line and sets one channel.
\<close>

definition hoverScript :: jsval where
  "hoverScript = JArray
     [JObject [(''time'', JNumber 0),
               (''action'', JFunction (\<lambda>h.
                  ([''Hover Script: Setting throttle to mid-point for hovering.''], Returned,
                   h\<lparr>channels := (channels h)\<lparr>throttle := 0.5\<rparr>\<rparr>)))],
      JObject [(''time'', JNumber 1000),
               (''action'', JFunction (\<lambda>h.
                  ([''Hover Script: Centering roll.''], Returned,
                   h\<lparr>channels := (channels h)\<lparr>roll := 0\<rparr>\<rparr>)))],
      JObject [(''time'', JNumber 1000),
               (''action'', JFunction (\<lambda>h.
                  ([''Hover Script: Centering pitch.''], Returned,
                   h\<lparr>channels := (channels h)\<lparr>pitch := 0\<rparr>\<rparr>)))],
      JObject [(''time'', JNumber 1000),
               (''action'', JFunction (\<lambda>h.
                  ([''Hover Script: Centering yaw.''], Returned,
                   h\<lparr>channels := (channels h)\<lparr>yaw := 0\<rparr>\<rparr>)))]]"

definition yawSpinScript :: jsval where
  "yawSpinScript = JArray
     [JObject [(''time'', JNumber 0),
               (''action'', JFunction (\<lambda>h.
                  ([''Yaw Spin Script: Initiating yaw spin''], Returned,
                   h\<lparr>channels := (channels h)\<lparr>yaw := 0.2\<rparr>\<rparr>)))],
      JObject [(''time'', JNumber 5000),
               (''action'', JFunction (\<lambda>h.
                  ([''Yaw Spin Script: Stopping yaw spin''], Returned,
                   h\<lparr>channels := (channels h)\<lparr>yaw := 0\<rparr>\<rparr>)))]]"

text \<open>A call whose exception nobody catches leaves the state as it was before the call.\<close>

definition orUnchanged :: "controls \<Rightarrow> exn + controls \<Rightarrow> controls" where
  "orUnchanged s r = (case r of Inl err \<Rightarrow> s | Inr s1 \<Rightarrow> s1)"

definition registerDefaultScripts :: "controls \<Rightarrow> controls" where
  "registerDefaultScripts s =
     (let s = orUnchanged s (registerScript ''hover'' hoverScript s);
          s = bindKeyToScript ''KeyS'' ''hover'' s;
          s = orUnchanged s (registerScript ''yawSpin'' yawSpinScript s);
          s = bindKeyToScript ''KeyY'' ''yawSpin'' s
      in s)"

text \<open>
  The constructor sets the fields, installs the two key handlers (the events \<open>onKeyDown\<close>
  and \<open>onKeyUp\<close> of this model) and registers and binds the default scripts.
\<close>

definition newControls :: controls where
  "newControls = registerDefaultScripts
     \<lparr>channels = \<lparr>roll = 0, pitch = 0, yaw = 0, throttle = 0.5\<rparr>,
      motorThrusts = \<lparr>motor1 = 0.6125, motor2 = 0.6125, motor3 = 0.6125, motor4 = 0.6125\<rparr>,
      keyStates = Map.empty,
      controlRate = 0.4,
      scripts = Map.empty,
      scriptBindings = Map.empty,
      activeScripts = [],
      console = []\<rparr>"

section \<open>Flight dynamics mapper (class PhysicsEngine)\<close>

text \<open>
  The variant of the class that reads its parameters from \<^verbatim>\<open>this.settings\<close> is modelled;
  the older variant carries the same velocity limits (50 and 10) as constants and has no
  per-motor mode.
\<close>

datatype vector3 = Vector3 (vx: real) (vy: real) (vz: real)

datatype quaternion = Quaternion (qx: real) (qy: real) (qz: real) (qw: real)

record settings =
  droneMass :: real
  dragCoefficient :: real
  liftCoefficient :: real
  frontalArea :: real
  airDensity :: real
  maxThrust :: real
  torqueStrength :: real
  maxVelocity :: real
  maxAngularVelocity :: real
  useIndividualMotors :: bool
  motorPositions :: "vector3 list"
  settingsMotorThrusts :: "real list"

text \<open>
  The last field is \<^verbatim>\<open>settings.motorThrusts\<close>, which no method reads; it is renamed because
  the controls carry a field of that name.
\<close>

definition defaultSettings :: settings where
  "defaultSettings =
     \<lparr>droneMass = 0.25,
      dragCoefficient = 0.47,
      liftCoefficient = 0.3,
      frontalArea = 0.25,
      airDensity = 1.225,
      maxThrust = 1,
      torqueStrength = 0.5,
      maxVelocity = 50,
      maxAngularVelocity = 10,
      useIndividualMotors = False,
      motorPositions = [Vector3 1 0 1, Vector3 (-1) 0 1, Vector3 (-1) 0 (-1), Vector3 1 0 (-1)],
      settingsMotorThrusts = [0.6125, 0.6125, 0.6125, 0.6125]\<rparr>"

text \<open>
  Library operations on vectors, as three.js and Bullet compute them:
  \<^verbatim>\<open>Vector3.applyQuaternion\<close> (the quaternion product \<open>q v q\<^sup>-\<^sup>1\<close> written out on
  components), \<^verbatim>\<open>Vector3.add\<close> and \<^verbatim>\<open>btVector3.length\<close>.
\<close>

definition applyQuaternion :: "vector3 \<Rightarrow> quaternion \<Rightarrow> vector3" where
  "applyQuaternion v q =
     (let ix = qw q * vx v + qy q * vz v - qz q * vy v;
          iy = qw q * vy v + qz q * vx v - qx q * vz v;
          iz = qw q * vz v + qx q * vy v - qy q * vx v;
          iw = - qx q * vx v - qy q * vy v - qz q * vz v
      in Vector3 (ix * qw q + iw * - qx q + iy * - qz q - iz * - qy q)
                 (iy * qw q + iw * - qy q + iz * - qx q - ix * - qz q)
                 (iz * qw q + iw * - qz q + ix * - qy q - iy * - qx q))"

definition add :: "vector3 \<Rightarrow> vector3 \<Rightarrow> vector3" where
  "add a b = Vector3 (vx a + vx b) (vy a + vy b) (vz a + vz b)"

definition vlength :: "vector3 \<Rightarrow> real" where
  "vlength v = sqrt (vx v * vx v + vy v * vy v + vz v * vz v)"

text \<open>
  The rigid body belongs to the physics library. The model keeps what the mapper reads
  (transform, velocities, whether a motion state is attached), the mesh transform it
  writes, and the list of force and torque calls it makes on the body.
\<close>

datatype forceCall =
    ApplyCentralForce vector3
  | ApplyForce vector3 vector3
  | ApplyTorque vector3

record rigidBody =
  hasMotionState :: bool
  origin :: vector3
  rotation :: quaternion
  linearVelocity :: vector3
  angularVelocity :: vector3
  meshPosition :: vector3
  meshQuaternion :: quaternion
  forceCalls :: "forceCall list"

subsection \<open>Velocity limits\<close>

text \<open>
  The blocks that limit the linear and the angular velocity are the same computation on two
  vectors and two limits: the velocity object read from the body is changed in place,
  component by component, with the scale computed once before. Before them the mesh takes
  the transform of the body; its components are real numbers here, so the tests with
  \<^verbatim>\<open>isFinite\<close> hold.
\<close>

definition limitVelocity :: "real \<Rightarrow> vector3 \<Rightarrow> vector3" where
  "limitVelocity cap velocity =
     (let currentSpeed = vlength velocity
      in if currentSpeed > cap
         then (let scale = cap / currentSpeed
               in Vector3 (vx velocity * scale) (vy velocity * scale) (vz velocity * scale))
         else velocity)"

definition updateMesh :: "settings \<Rightarrow> rigidBody \<Rightarrow> rigidBody" where
  "updateMesh st b =
     (if hasMotionState b
      then b\<lparr>meshPosition := origin b,
             meshQuaternion := rotation b,
             linearVelocity := limitVelocity (maxVelocity st) (linearVelocity b),
             angularVelocity := limitVelocity (maxAngularVelocity st) (angularVelocity b)\<rparr>
      else b)"

definition updateMeshPositions :: "settings \<Rightarrow> rigidBody list \<Rightarrow> rigidBody list" where
  "updateMeshPositions st rigidBodies = map (updateMesh st) rigidBodies"

subsection \<open>Thrust and torque\<close>

definition motorThrustOf :: "motorState \<Rightarrow> nat \<Rightarrow> real" where
  "motorThrustOf m i =
     (if i = 1 then motor1 m else if i = 2 then motor2 m
      else if i = 3 then motor3 m else motor4 m)"

text \<open>
  The loop over the motors. The four thrusts of the snapshot are numbers, so none is skipped
  as \<^verbatim>\<open>undefined\<close>. Reading a motor position past the end of the configured list gives
  \<^verbatim>\<open>undefined\<close>, whose \<^verbatim>\<open>clone\<close> call throws.
\<close>

fun motorLoop :: "settings \<Rightarrow> motorState \<Rightarrow> nat list \<Rightarrow> rigidBody \<Rightarrow> exn + rigidBody" where
  "motorLoop st m [] b = Inr b"
| "motorLoop st m (i # rest) b =
     (let motorThrust = motorThrustOf m i;
          thrustLocal = Vector3 0 (motorThrust * maxThrust st) 0;
          thrustWorld = applyQuaternion thrustLocal (rotation b)
      in if i - 1 < length (motorPositions st)
         then (let motorPositionLocal = motorPositions st ! (i - 1);
                   motorPositionWorld = add (applyQuaternion motorPositionLocal (rotation b)) (origin b)
               in motorLoop st m rest
                    (b\<lparr>forceCalls := forceCalls b @ [ApplyForce thrustWorld motorPositionWorld]\<rparr>))
         else Inl TypeError)"

definition applyControlsToDrone ::
  "settings \<Rightarrow> channelState \<times> motorState \<Rightarrow> rigidBody \<Rightarrow> exn + rigidBody" where
  "applyControlsToDrone st inputs b =
     (case inputs of (c, m) \<Rightarrow>
        if useIndividualMotors st
        then motorLoop st m [1, 2, 3, 4] b
        else (let thrustForce = throttle c * maxThrust st;
                  thrustWorld = applyQuaternion (Vector3 0 thrustForce 0) (rotation b);
                  torqueLocal = Vector3 (torqueStrength st * roll c)
                                        (torqueStrength st * - yaw c)
                                        (torqueStrength st * pitch c);
                  torqueWorld = applyQuaternion torqueLocal (rotation b)
              in Inr (b\<lparr>forceCalls := forceCalls b @
                           [ApplyCentralForce thrustWorld, ApplyTorque torqueWorld]\<rparr>)))"

section \<open>Notions used to state the properties\<close>

subsection \<open>Executed actions\<close>

text \<open>
  The number of the action that a console line reports as executed or as failed (the engine
  prints the index plus one), and the numbers reported by a list of lines, in order.
\<close>

fun executedNumber :: "consoleLine \<Rightarrow> nat option" where
  "executedNumber (LogExecuted n i e) = Some n"
| "executedNumber (ErrorExecuting n i) = Some n"
| "executedNumber l = None"

definition executedNumbers :: "consoleLine list \<Rightarrow> nat list" where
  "executedNumbers ls = List.map_filter executedNumber ls"

text \<open>
  The run of actions at the cursor of an instance whose offsets have been reached: it stops
  at the first action that is not due yet.
\<close>

definition due :: "real \<Rightarrow> scriptInstance \<Rightarrow> scriptAction list" where
  "due e inst = takeWhile (\<lambda>a. time a \<le> e) (drop (nextActionIndex inst) (actions inst))"

text \<open>
  For one update at clock \<open>now\<close>: the instance with the cursor moved behind its run of due
  actions, whether actions remain, the action numbers the console reports for it, and the
  state in which the instance behind the instances \<open>pre\<close> of the list is run.
\<close>

definition advanced :: "real \<Rightarrow> scriptInstance \<Rightarrow> scriptInstance" where
  "advanced now inst =
     inst\<lparr>nextActionIndex := nextActionIndex inst + length (due (now - startTime inst) inst)\<rparr>"

definition unfinished :: "scriptInstance \<Rightarrow> bool" where
  "unfinished inst = (nextActionIndex inst < length (actions inst))"

definition reported :: "real \<Rightarrow> scriptInstance \<Rightarrow> nat list" where
  "reported now inst =
     [Suc (nextActionIndex inst) ..<
      Suc (nextActionIndex inst + length (due (now - startTime inst) inst))]"

definition reached :: "real \<Rightarrow> scriptInstance list \<Rightarrow> controls \<Rightarrow> controls" where
  "reached now pre s = foldl (\<lambda>s1 inst. fst (whileDue (now - startTime inst) (s1, inst))) s pre"

text \<open>The loop over the due actions of one instance, at each of a list of elapsed times in turn.\<close>

definition advance :: "real list \<Rightarrow> controls \<times> scriptInstance \<Rightarrow> controls \<times> scriptInstance" where
  "advance es si = foldl (\<lambda>si1 e. whileDue e si1) si es"

subsection \<open>Sequences of updates and of events\<close>


text \<open>The keys that move a channel, and the states in which none is held and no script runs.\<close>

definition axisKeys :: "string list" where
  "axisKeys = [''KeyA'', ''KeyD'', ''ArrowRight'', ''ArrowLeft'', ''ArrowDown'', ''ArrowUp'',
               ''KeyW'', ''KeyX'']"

definition idle :: "controls \<Rightarrow> bool" where
  "idle s = ((\<forall>k\<in>set axisKeys. \<not> truthyBool (keyStates s k)) \<and> activeScripts s = [])"


text \<open>
  What can happen to the engine from outside: key events, frame updates and calls of its
  public methods. A call that throws leaves the engine as it was.
\<close>

datatype event =
    KeyDown string real
  | KeyUp string
  | Update gamepad real real
  | RegisterScript string jsval
  | BindKeyToScript string string
  | ExecuteScript string real

fun applyEvent :: "event \<Rightarrow> controls \<Rightarrow> controls" where
  "applyEvent (KeyDown key now) s = onKeyDown key now s"
| "applyEvent (KeyUp key) s = onKeyUp key s"
| "applyEvent (Update pad deltaTime now) s = update pad deltaTime now s"
| "applyEvent (RegisterScript scriptId v) s = orUnchanged s (registerScript scriptId v s)"
| "applyEvent (BindKeyToScript keyCode scriptId) s = bindKeyToScript keyCode scriptId s"
| "applyEvent (ExecuteScript scriptId now) s = executeScript scriptId now s"

definition run :: "event list \<Rightarrow> controls \<Rightarrow> controls" where
  "run evs s = foldl (\<lambda>s1 ev. applyEvent ev s1) s evs"

subsection \<open>Ranges\<close>

text \<open>The documented ranges of the channels and the motor thrusts.\<close>

definition inRange :: "channelState \<Rightarrow> motorState \<Rightarrow> bool" where
  "inRange c m =
     (- 1 \<le> roll c \<and> roll c \<le> 1 \<and> - 1 \<le> pitch c \<and> pitch c \<le> 1 \<and>
      - 1 \<le> yaw c \<and> yaw c \<le> 1 \<and> 0 \<le> throttle c \<and> throttle c \<le> 1 \<and>
      0 \<le> motor1 m \<and> motor1 m \<le> 1 \<and> 0 \<le> motor2 m \<and> motor2 m \<le> 1 \<and>
      0 \<le> motor3 m \<and> motor3 m \<le> 1 \<and> 0 \<le> motor4 m \<and> motor4 m \<le> 1)"

text \<open>
  A script action keeps the ranges when it takes values within the ranges to values within
  the ranges, whether it returns or throws; an event is tame when every action a
  registration brings in does, and a state when it is within the ranges and all the
  actions it holds do.
\<close>

definition keepsRange :: "callback \<Rightarrow> bool" where
  "keepsRange f =
     (\<forall>h. inRange (channels h) (motorThrusts h) \<longrightarrow>
          inRange (channels (snd (snd (f h)))) (motorThrusts (snd (snd (f h)))))"

definition tameEntry :: "jsval \<Rightarrow> bool" where
  "tameEntry e = (case getProp e ''action'' of Inr (JFunction f) \<Rightarrow> keepsRange f | _ \<Rightarrow> True)"

fun tameEvent :: "event \<Rightarrow> bool" where
  "tameEvent (RegisterScript scriptId (JArray es)) = (\<forall>e\<in>set es. tameEntry e)"
| "tameEvent ev = True"

definition tameState :: "controls \<Rightarrow> bool" where
  "tameState s =
     (inRange (channels s) (motorThrusts s) \<and>
      (\<forall>i acts. scripts s i = Some acts \<longrightarrow> (\<forall>a\<in>set acts. keepsRange (action a))) \<and>
      (\<forall>inst\<in>set (activeScripts s). \<forall>a\<in>set (actions inst). keepsRange (action a)))"

subsection \<open>Forces and directions\<close>

text \<open>The sum of the forces of a list of calls; torque calls carry no force.\<close>

fun netForce :: "forceCall list \<Rightarrow> vector3" where
  "netForce [] = Vector3 0 0 0"
| "netForce (ApplyCentralForce f # cs) = add f (netForce cs)"
| "netForce (ApplyForce f p # cs) = add f (netForce cs)"
| "netForce (ApplyTorque t # cs) = netForce cs"

text \<open>The calls made on the body when \<^verbatim>\<open>applyControlsToDrone\<close> returned.\<close>

definition callsOf :: "exn + rigidBody \<Rightarrow> forceCall list" where
  "callsOf r = (case r of Inl err \<Rightarrow> [] | Inr b \<Rightarrow> forceCalls b)"

text \<open>The unit vector of a velocity.\<close>

definition direction :: "vector3 \<Rightarrow> vector3" where
  "direction v = Vector3 (vx v / vlength v) (vy v / vlength v) (vz v / vlength v)"

subsection \<open>Concrete inputs\<close>

text \<open>A gamepad that is not connected, and a connected one.\<close>

definition offPad :: gamepad where
  "offPad = \<lparr>connected = False, axes = (0, 0, 0, 0)\<rparr>"

definition onPad :: gamepad where
  "onPad = \<lparr>connected = True, axes = (0.5, - 0.25, 1, 0)\<rparr>"

text \<open>
  A script action that sets the yaw channel and returns, and the object literal
  \<^verbatim>\<open>{ time: t, action: f }\<close>.
\<close>

definition setYaw :: "real \<Rightarrow> callback" where
  "setYaw v = (\<lambda>h. ([], Returned, h\<lparr>channels := (channels h)\<lparr>yaw := v\<rparr>\<rparr>))"

definition entry :: "real \<Rightarrow> callback \<Rightarrow> jsval" where
  "entry t f = JObject [(''time'', JNumber t), (''action'', JFunction f)]"

text \<open>
  A freshly constructed engine on which a script has been registered and bound to a key.
\<close>

definition scripted :: "string \<Rightarrow> string \<Rightarrow> jsval \<Rightarrow> controls" where
  "scripted keyCode scriptId v =
     bindKeyToScript keyCode scriptId
       (orUnchanged newControls (registerScript scriptId v newControls))"

text \<open>
  A script whose first action comes later than its second, the instance a press of its key
  starts at time 0, and the state after that press.
\<close>

definition lateInstance :: scriptInstance where
  "lateInstance =
     \<lparr>instId = ''late'',
      actions = [\<lparr>time = 1000, action = setYaw 0.1\<rparr>, \<lparr>time = 0, action = setYaw 0.2\<rparr>],
      startTime = 0,
      nextActionIndex = 0\<rparr>"

definition unsortedState :: controls where
  "unsortedState =
     onKeyDown ''KeyU'' 0
       (scripted ''KeyU'' ''late'' (JArray [entry 1000 (setYaw 0.1), entry 0 (setYaw 0.2)]))"

text \<open>
  A script with actions at 0 and 1000 ms bound to a key, and an instance of it started at
  time 5.
\<close>

definition twoActionState :: controls where
  "twoActionState =
     scripted ''KeyT'' ''two'' (JArray [entry 0 (setYaw 0.1), entry 1000 (setYaw 0.2)])"

definition twoActionInstance :: scriptInstance where
  "twoActionInstance =
     \<lparr>instId = ''two'',
      actions = [\<lparr>time = 0, action = setYaw 0.1\<rparr>, \<lparr>time = 1000, action = setYaw 0.2\<rparr>],
      startTime = 5,
      nextActionIndex = 0\<rparr>"

text \<open>A running instance whose only action throws, and a state in which it runs.\<close>

definition throwingInstance :: scriptInstance where
  "throwingInstance =
     \<lparr>instId = ''boom'',
      actions = [\<lparr>time = 0, action = (\<lambda>h. ([], Threw, h))\<rparr>],
      startTime = 0,
      nextActionIndex = 0\<rparr>"

definition throwingState :: controls where
  "throwingState = newControls\<lparr>activeScripts := [throwingInstance]\<rparr>"

text \<open>
  States with two running instances: the unsorted script started at 0 with the two-action
  script started at 5, and the throwing instance with the two-action script.
\<close>

definition pairState :: controls where
  "pairState = newControls\<lparr>activeScripts := [lateInstance, twoActionInstance]\<rparr>"

definition mixedState :: controls where
  "mixedState = newControls\<lparr>activeScripts := [throwingInstance, twoActionInstance]\<rparr>"






text \<open>
  An engine on which \<^verbatim>\<open>registerScript('', [])\<close> and \<^verbatim>\<open>bindKeyToScript('KeyA', '')\<close> have been
  called.
\<close>

definition emptyIdState :: controls where
  "emptyIdState = scripted ''KeyA'' [] (JArray [])"

text \<open>
  A script that sets yaw to 5 is registered, bound and triggered, and one update runs it.
\<close>

definition boostEvents :: "event list" where
  "boostEvents =
     [RegisterScript ''boost'' (JArray [entry 0 (setYaw 5)]),
      BindKeyToScript ''KeyB'' ''boost'',
      KeyDown ''KeyB'' 0,
      Update offPad 16 16]"

text \<open>A flight with keyboard, gamepad and scripts whose actions keep the ranges.\<close>

definition flightEvents :: "event list" where
  "flightEvents =
     [KeyDown ''KeyW'' 0,
      Update offPad 16 16,
      RegisterScript ''nudge'' (JArray [entry 0 (setYaw 0.1)]),
      BindKeyToScript ''KeyN'' ''nudge'',
      KeyDown ''KeyN'' 18,
      KeyDown ''KeyY'' 20,
      Update onPad 16 32,
      KeyUp ''KeyW'',
      Update offPad 16 6000]"

text \<open>
  A body at rest with identity orientation, the inputs of full throttle with all motor
  thrusts at 0.6125, and a body with linear speed 80 and angular speed 20.
\<close>

definition trimBody :: rigidBody where
  "trimBody =
     \<lparr>hasMotionState = True,
      origin = Vector3 0 10 0,
      rotation = Quaternion 0 0 0 1,
      linearVelocity = Vector3 0 0 0,
      angularVelocity = Vector3 0 0 0,
      meshPosition = Vector3 0 10 0,
      meshQuaternion = Quaternion 0 0 0 1,
      forceCalls = []\<rparr>"

definition trimInputs :: "channelState \<times> motorState" where
  "trimInputs =
     (\<lparr>roll = 0, pitch = 0, yaw = 0, throttle = 1\<rparr>,
      \<lparr>motor1 = 0.6125, motor2 = 0.6125, motor3 = 0.6125, motor4 = 0.6125\<rparr>)"

definition fastBody :: rigidBody where
  "fastBody = trimBody\<lparr>linearVelocity := Vector3 48 64 0, angularVelocity := Vector3 0 0 20\<rparr>"

section \<open>Initial control state\<close>

lemma registerDefaultScripts_handle:
  "channels (registerDefaultScripts s) = channels s \<and>
   motorThrusts (registerDefaultScripts s) = motorThrusts s"
  by (simp add: registerDefaultScripts_def registerScript_def hoverScript_def yawSpinScript_def
      bindKeyToScript_def orUnchanged_def Let_def)

lemma newControls_handle:
  "channels newControls = \<lparr>roll = 0, pitch = 0, yaw = 0, throttle = 0.5\<rparr>"
  "motorThrusts newControls =
     \<lparr>motor1 = 0.6125, motor2 = 0.6125, motor3 = 0.6125, motor4 = 0.6125\<rparr>"
  by (simp_all add: newControls_def registerDefaultScripts_handle)

text \<open>
  Claim C9. Right after construction roll, pitch and yaw are 0, throttle is 0.5 and the four
  motor thrusts are 0.6125, and \<^verbatim>\<open>getControlInputs\<close> returns exactly these values.
\<close>

theorem C9_initial_control_state:
  "channels newControls = \<lparr>roll = 0, pitch = 0, yaw = 0, throttle = 0.5\<rparr> \<and>
   motorThrusts newControls =
     \<lparr>motor1 = 0.6125, motor2 = 0.6125, motor3 = 0.6125, motor4 = 0.6125\<rparr> \<and>
   getControlInputs newControls =
     (\<lparr>roll = 0, pitch = 0, yaw = 0, throttle = 0.5\<rparr>,
      \<lparr>motor1 = 0.6125, motor2 = 0.6125, motor3 = 0.6125, motor4 = 0.6125\<rparr>)"
  by (simp add: newControls_handle getControlInputs_def)

section \<open>Keyboard update: what it leaves alone and what it computes\<close>

lemma centerUnusedControls_frame:
  "motorThrusts (centerUnusedControls s) = motorThrusts s"
  "keyStates (centerUnusedControls s) = keyStates s"
  "controlRate (centerUnusedControls s) = controlRate s"
  "scripts (centerUnusedControls s) = scripts s"
  "scriptBindings (centerUnusedControls s) = scriptBindings s"
  "activeScripts (centerUnusedControls s) = activeScripts s"
  "console (centerUnusedControls s) = console s"
  by (simp_all add: centerUnusedControls_def Let_def)

lemma updateKeyboardControls_frame:
  "keyStates (updateKeyboardControls s) = keyStates s"
  "controlRate (updateKeyboardControls s) = controlRate s"
  "scripts (updateKeyboardControls s) = scripts s"
  "scriptBindings (updateKeyboardControls s) = scriptBindings s"
  "activeScripts (updateKeyboardControls s) = activeScripts s"
  "console (updateKeyboardControls s) = console s"
  by (simp_all add: updateKeyboardControls_def centerUnusedControls_frame Let_def)

lemma updateControlChannels_frame:
  "keyStates (updateControlChannels pad dt s) = keyStates s"
  "controlRate (updateControlChannels pad dt s) = controlRate s"
  "scripts (updateControlChannels pad dt s) = scripts s"
  "scriptBindings (updateControlChannels pad dt s) = scriptBindings s"
  "activeScripts (updateControlChannels pad dt s) = activeScripts s"
  "console (updateControlChannels pad dt s) = console s"
  by (simp_all add: updateControlChannels_def updateKeyboardControls_frame split: prod.splits)

lemma yaw_keyboard:
  "yaw (channels (updateKeyboardControls s)) =
    (let k = keyStates s; r = controlRate s; v = yaw (channels s);
         v = (if truthyBool (k ''KeyA'') then clampValue (v - r) (-1) 1 else v);
         v = (if truthyBool (k ''KeyD'') then clampValue (v + r) (-1) 1 else v)
     in if \<not> truthyBool (k ''KeyA'') \<and> \<not> truthyBool (k ''KeyD'') then moveTowardsCenter v else v)"
  by (simp add: updateKeyboardControls_def centerUnusedControls_def Let_def)

lemma throttle_keyboard:
  "throttle (channels (updateKeyboardControls s)) =
    (let k = keyStates s; r = controlRate s; v = throttle (channels s);
         v = (if truthyBool (k ''KeyW'') then clampValue (v + r) 0 1 else v);
         v = (if truthyBool (k ''KeyX'') then clampValue (v - r) 0 1 else v)
     in if \<not> truthyBool (k ''KeyW'') \<and> \<not> truthyBool (k ''KeyX'') then moveTowardsZero v else v)"
  by (simp add: updateKeyboardControls_def centerUnusedControls_def Let_def)

lemma motor1_keyboard:
  "motor1 (motorThrusts (updateKeyboardControls s)) =
    (if truthyBool (keyStates s ''Digit1'') then clampValue (motor1 (motorThrusts s) + controlRate s) 0 1
     else clampValue (motor1 (motorThrusts s) - controlRate s) 0 1)"
  by (simp add: updateKeyboardControls_def centerUnusedControls_frame Let_def)

section \<open>The loop over due actions\<close>

declare whileDue.simps [simp del]

lemma runAction_snd:
  "snd (runAction (s, inst) e) = inst\<lparr>nextActionIndex := Suc (nextActionIndex inst)\<rparr>"
  by (simp add: runAction_def Let_def split: prod.splits)

lemma runAction_frame:
  "keyStates (fst (runAction (s, inst) e)) = keyStates s"
  "controlRate (fst (runAction (s, inst) e)) = controlRate s"
  "scripts (fst (runAction (s, inst) e)) = scripts s"
  "scriptBindings (fst (runAction (s, inst) e)) = scriptBindings s"
  "activeScripts (fst (runAction (s, inst) e)) = activeScripts s"
  by (simp_all add: runAction_def Let_def split: prod.splits)

lemma executedNumbers_append: "executedNumbers (a @ b) = executedNumbers a @ executedNumbers b"
  by (simp add: executedNumbers_def map_filter_def)

lemma executedNumbers_callback: "executedNumbers (map CallbackOutput out) = []"
  by (induction out) (simp_all add: executedNumbers_def map_filter_def)

lemma executedNumbers_simps:
  "executedNumbers [] = []"
  "executedNumbers (l # ls) =
     (case executedNumber l of None \<Rightarrow> executedNumbers ls | Some n \<Rightarrow> n # executedNumbers ls)"
  by (simp_all add: executedNumbers_def map_filter_def split: option.splits)

lemma runAction_console:
  "\<exists>new. console (fst (runAction (s, inst) e)) = console s @ new \<and>
         executedNumbers new = [Suc (nextActionIndex inst)]"
  by (auto simp: runAction_def Let_def executedNumbers_append executedNumbers_callback
      executedNumbers_def map_filter_def split: prod.splits outcome.splits)

lemma upt_head: "a # [Suc a ..< Suc (a + n)] = [a ..< Suc (a + n)]"
  using upt_conv_Cons [of a "Suc (a + n)"] by simp

lemma whileDue_go:
  "nextActionIndex inst < length (actions inst) \<and>
   time (actions inst ! nextActionIndex inst) \<le> e \<Longrightarrow>
   whileDue e (s, inst) = whileDue e (runAction (s, inst) e)"
  by (subst whileDue.simps) auto

lemma whileDue_stop:
  "\<not> (nextActionIndex inst < length (actions inst) \<and>
      time (actions inst ! nextActionIndex inst) \<le> e) \<Longrightarrow>
   whileDue e (s, inst) = (s, inst)"
  by (subst whileDue.simps) auto

lemma due_step:
  assumes "nextActionIndex inst < length (actions inst)"
    and "time (actions inst ! nextActionIndex inst) \<le> e"
  shows "due e inst = actions inst ! nextActionIndex inst #
           due e (inst\<lparr>nextActionIndex := Suc (nextActionIndex inst)\<rparr>)"
  using assms by (simp add: due_def Cons_nth_drop_Suc [symmetric])

lemma due_stop:
  assumes "\<not> (nextActionIndex inst < length (actions inst) \<and>
             time (actions inst ! nextActionIndex inst) \<le> e)"
  shows "due e inst = []"
proof (cases "nextActionIndex inst < length (actions inst)")
  case True
  with assms have "\<not> time (actions inst ! nextActionIndex inst) \<le> e" by simp
  with True show ?thesis
    by (simp add: due_def Cons_nth_drop_Suc [symmetric])
next
  case False
  then show ?thesis by (simp add: due_def)
qed

lemma whileDue_iterate:
  "whileDue e si = ((\<lambda>x. runAction x e) ^^ length (due e (snd si))) si"
proof (induction e si rule: whileDue.induct)
  case (1 e si)
  obtain s inst where si: "si = (s, inst)" by (cases si)
  show ?case
  proof (cases "nextActionIndex inst < length (actions inst) \<and>
                time (actions inst ! nextActionIndex inst) \<le> e")
    case True
    then have d: "due e inst = actions inst ! nextActionIndex inst #
           due e (inst\<lparr>nextActionIndex := Suc (nextActionIndex inst)\<rparr>)"
      by (simp add: due_step)
    from True have "whileDue e si = whileDue e (runAction si e)"
      by (simp add: si whileDue_go)
    also have "\<dots> = ((\<lambda>x. runAction x e) ^^ length (due e (snd (runAction si e)))) (runAction si e)"
      using "1.IH" True by (simp add: si)
    also have "\<dots> = ((\<lambda>x. runAction x e) ^^ length (due e (snd si))) si"
      by (simp add: si runAction_snd d funpow_Suc_right del: funpow.simps)
    finally show ?thesis .
  next
    case False
    then have "whileDue e si = si"
      by (simp add: si whileDue_stop)
    moreover from False have "due e inst = []" by (rule due_stop)
    ultimately show ?thesis by (simp add: si)
  qed
qed

lemma whileDue_cursor:
  "snd (whileDue e (s, inst)) =
     inst\<lparr>nextActionIndex := nextActionIndex inst + length (due e inst)\<rparr>"
proof (induction e "(s, inst)" arbitrary: s inst rule: whileDue.induct)
  case (1 e s inst)
  show ?case
  proof (cases "nextActionIndex inst < length (actions inst) \<and>
                time (actions inst ! nextActionIndex inst) \<le> e")
    case True
    then have d: "due e inst = actions inst ! nextActionIndex inst #
           due e (inst\<lparr>nextActionIndex := Suc (nextActionIndex inst)\<rparr>)"
      by (simp add: due_step)
    obtain s1 where r: "runAction (s, inst) e = (s1, inst\<lparr>nextActionIndex := Suc (nextActionIndex inst)\<rparr>)"
      using runAction_snd [of s inst e] by (cases "runAction (s, inst) e") simp
    from True have "whileDue e (s, inst) = whileDue e (runAction (s, inst) e)"
      by (rule whileDue_go)
    then show ?thesis
      using "1.hyps" [of s1 "inst\<lparr>nextActionIndex := Suc (nextActionIndex inst)\<rparr>"] True by (simp add: r d)
  next
    case False
    then have "whileDue e (s, inst) = (s, inst)"
      by (rule whileDue_stop)
    moreover from False have "due e inst = []" by (rule due_stop)
    ultimately show ?thesis by simp
  qed
qed

lemma whileDue_console:
  "\<exists>new. console (fst (whileDue e (s, inst))) = console s @ new \<and>
         executedNumbers new =
           [Suc (nextActionIndex inst) ..< Suc (nextActionIndex inst + length (due e inst))]"
proof (induction e "(s, inst)" arbitrary: s inst rule: whileDue.induct)
  case (1 e s inst)
  show ?case
  proof (cases "nextActionIndex inst < length (actions inst) \<and>
                time (actions inst ! nextActionIndex inst) \<le> e")
    case True
    then have d: "due e inst = actions inst ! nextActionIndex inst #
           due e (inst\<lparr>nextActionIndex := Suc (nextActionIndex inst)\<rparr>)"
      by (simp add: due_step)
    obtain s1 where r: "runAction (s, inst) e = (s1, inst\<lparr>nextActionIndex := Suc (nextActionIndex inst)\<rparr>)"
      using runAction_snd [of s inst e] by (cases "runAction (s, inst) e") simp
    obtain new1 where n1: "console s1 = console s @ new1"
        "executedNumbers new1 = [Suc (nextActionIndex inst)]"
      using runAction_console [of s inst e] by (auto simp: r)
    from True have w: "whileDue e (s, inst) = whileDue e (runAction (s, inst) e)"
      by (rule whileDue_go)
    obtain new2 where n2: "console (fst (whileDue e (runAction (s, inst) e))) = console s1 @ new2"
      "executedNumbers new2 = [Suc (Suc (nextActionIndex inst)) ..<
         Suc (Suc (nextActionIndex inst) + length (due e (inst\<lparr>nextActionIndex := Suc (nextActionIndex inst)\<rparr>)))]"
      using "1.hyps" [of s1 "inst\<lparr>nextActionIndex := Suc (nextActionIndex inst)\<rparr>"] True by (auto simp: r)
    have "console (fst (whileDue e (s, inst))) = console s @ (new1 @ new2)"
      by (simp add: w n1 n2)
    moreover have "executedNumbers (new1 @ new2) =
       [Suc (nextActionIndex inst) ..< Suc (nextActionIndex inst + length (due e inst))]"
      using upt_head [of "Suc (nextActionIndex inst)" "length (due e (inst\<lparr>nextActionIndex := Suc (nextActionIndex inst)\<rparr>))"]
      by (simp add: executedNumbers_append n1 n2 d)
    ultimately show ?thesis by blast
  next
    case False
    then have "whileDue e (s, inst) = (s, inst)"
      by (rule whileDue_stop)
    moreover from False have "due e inst = []" by (rule due_stop)
    ultimately show ?thesis by (simp add: executedNumbers_def map_filter_def)
  qed
qed

lemma whileDue_frame:
  "keyStates (fst (whileDue e (s, inst))) = keyStates s \<and>
   controlRate (fst (whileDue e (s, inst))) = controlRate s \<and>
   scripts (fst (whileDue e (s, inst))) = scripts s \<and>
   scriptBindings (fst (whileDue e (s, inst))) = scriptBindings s \<and>
   activeScripts (fst (whileDue e (s, inst))) = activeScripts s"
proof (induction e "(s, inst)" arbitrary: s inst rule: whileDue.induct)
  case (1 e s inst)
  show ?case
  proof (cases "nextActionIndex inst < length (actions inst) \<and>
                time (actions inst ! nextActionIndex inst) \<le> e")
    case True
    obtain s1 inst1 where r: "runAction (s, inst) e = (s1, inst1)"
      by (cases "runAction (s, inst) e")
    from True have w: "whileDue e (s, inst) = whileDue e (s1, inst1)"
      by (simp add: whileDue_go r)
    show ?thesis
      using "1.hyps" [of s1 inst1] True runAction_frame [of s inst e]
      by (simp add: w r)
  next
    case False
    then have "whileDue e (s, inst) = (s, inst)"
      by (rule whileDue_stop)
    then show ?thesis by simp
  qed
qed

lemma sorted_takeWhile_filter:
  "sorted (map time xs) \<Longrightarrow> takeWhile (\<lambda>a. time a \<le> e) xs = filter (\<lambda>a. time a \<le> e) xs"
proof (induction xs)
  case Nil
  then show ?case by simp
next
  case (Cons x xs)
  show ?case
  proof (cases "time x \<le> e")
    case True
    with Cons show ?thesis by simp
  next
    case False
    with Cons.prems have "\<forall>a\<in>set xs. \<not> time a \<le> e" by fastforce
    with False show ?thesis by (simp add: filter_empty_conv)
  qed
qed

lemma runAction_pair:
  "runAction (s, inst) e =
     (fst (runAction (s, inst) e), inst\<lparr>nextActionIndex := Suc (nextActionIndex inst)\<rparr>)"
  using runAction_snd [of s inst e] by (cases "runAction (s, inst) e") simp

lemma runAction_executedNumbers:
  "executedNumbers (console (fst (runAction (s, inst) e))) =
     executedNumbers (console s) @ [Suc (nextActionIndex inst)]"
  using runAction_console [of s inst e] by (auto simp: executedNumbers_append)

lemma runAction_handle:
  "handle.truncate (fst (runAction (s, inst) e)) =
     snd (snd (action (actions inst ! nextActionIndex inst) (handle.truncate s)))"
  by (simp add: runAction_def Let_def handle.truncate_def split: prod.splits)

lemma runAction_threw:
  assumes "action (actions inst ! nextActionIndex inst) (handle.truncate s) = (out, Threw, h)"
  shows "runAction (s, inst) e =
     (s\<lparr>channels := channels h, motorThrusts := motorThrusts h,
        console := console s @ map CallbackOutput out @
          [ErrorExecuting (nextActionIndex inst + 1) (instId inst)]\<rparr>,
      inst\<lparr>nextActionIndex := nextActionIndex inst + 1\<rparr>)"
  using assms by (simp add: runAction_def Let_def)

lemma whileDue_console_prefix:
  "\<exists>new. console (fst (whileDue e (s, inst))) = console s @ new"
  using whileDue_console [of e s inst] by blast

lemma due_all:
  assumes "\<forall>a\<in>set (actions inst). time a \<le> e"
  shows "due e inst = drop (nextActionIndex inst) (actions inst)"
proof -
  have "\<forall>a\<in>set (drop (nextActionIndex inst) (actions inst)). time a \<le> e"
    using assms by (meson in_set_dropD)
  then show ?thesis by (simp add: due_def takeWhile_eq_all_conv)
qed

lemma whileDue_complete:
  assumes "\<forall>a\<in>set (actions inst). time a \<le> e"
  shows "\<not> nextActionIndex (snd (whileDue e (s, inst))) < length (actions (snd (whileDue e (s, inst))))"
  by (simp add: whileDue_cursor due_all [OF assms])

lemma filterActive_frame:
  "keyStates (snd (filterActive now insts s)) = keyStates s \<and>
   controlRate (snd (filterActive now insts s)) = controlRate s \<and>
   scripts (snd (filterActive now insts s)) = scripts s \<and>
   scriptBindings (snd (filterActive now insts s)) = scriptBindings s \<and>
   activeScripts (snd (filterActive now insts s)) = activeScripts s"
proof (induction insts arbitrary: s)
  case Nil
  then show ?case by simp
next
  case (Cons inst rest)
  obtain s1 inst1 where w: "whileDue (now - startTime inst) (s, inst) = (s1, inst1)"
    by (cases "whileDue (now - startTime inst) (s, inst)")
  obtain kept s2 where f: "filterActive now rest s1 = (kept, s2)"
    by (cases "filterActive now rest s1")
  from Cons.IH [of s1] whileDue_frame [of "now - startTime inst" s inst]
  show ?case by (simp add: w f)
qed

lemma filterActive_complete:
  assumes "\<forall>inst\<in>set insts. \<forall>a\<in>set (actions inst). time a \<le> now - startTime inst"
  shows "fst (filterActive now insts s) = []"
  using assms
proof (induction insts arbitrary: s)
  case Nil
  then show ?case by simp
next
  case (Cons inst rest)
  obtain s1 inst1 where w: "whileDue (now - startTime inst) (s, inst) = (s1, inst1)"
    by (cases "whileDue (now - startTime inst) (s, inst)")
  obtain kept s2 where f: "filterActive now rest s1 = (kept, s2)"
    by (cases "filterActive now rest s1")
  have "\<forall>a\<in>set (actions inst). time a \<le> now - startTime inst"
    using Cons.prems by simp
  from whileDue_complete [OF this, of s]
  have "\<not> nextActionIndex inst1 < length (actions inst1)" by (simp add: w)
  moreover have "kept = []" using Cons.IH [of s1] Cons.prems by (simp add: f)
  ultimately show ?case by (simp add: w f)
qed

lemma updateActiveScripts_complete:
  assumes "\<forall>inst\<in>set (activeScripts s). \<forall>a\<in>set (actions inst). time a \<le> now - startTime inst"
  shows "activeScripts (updateActiveScripts dt now s) = []"
  using filterActive_complete [OF assms, of s]
  by (simp add: updateActiveScripts_def case_prod_beta)

lemma updateActiveScripts_idle:
  "activeScripts s = [] \<Longrightarrow> updateActiveScripts dt now s = s"
  by (simp add: updateActiveScripts_def)

lemma updateActiveScripts_frame:
  "keyStates (updateActiveScripts dt now s) = keyStates s \<and>
   controlRate (updateActiveScripts dt now s) = controlRate s \<and>
   scripts (updateActiveScripts dt now s) = scripts s \<and>
   scriptBindings (updateActiveScripts dt now s) = scriptBindings s"
  using filterActive_frame [of now "activeScripts s" s]
  by (simp add: updateActiveScripts_def case_prod_beta)

section \<open>One update over all running instances\<close>

lemma whileDue_advanced:
  "whileDue (now - startTime inst) (s, inst) =
     (fst (whileDue (now - startTime inst) (s, inst)), advanced now inst)"
  using whileDue_cursor [of "now - startTime inst" s inst]
  by (cases "whileDue (now - startTime inst) (s, inst)") (simp add: advanced_def)

lemma filterActive_reached:
  "filterActive now insts s =
     (filter unfinished (map (advanced now) insts), reached now insts s)"
proof (induction insts arbitrary: s)
  case Nil
  then show ?case by (simp add: reached_def)
next
  case (Cons inst rest)
  obtain s1 where w: "whileDue (now - startTime inst) (s, inst) = (s1, advanced now inst)"
    using whileDue_advanced [of now inst s] by blast
  then have r: "reached now (inst # rest) s = reached now rest s1"
    by (simp add: reached_def)
  show ?case
    by (simp add: w Cons.IH [of s1] r unfinished_def)
qed

lemma reached_append:
  "reached now (pre @ inst # post) s =
     reached now post (fst (whileDue (now - startTime inst) (reached now pre s, inst)))"
  by (simp add: reached_def)

lemma reached_console:
  "\<exists>new. console (reached now insts s) = console s @ new \<and>
     executedNumbers new = concat (map (reported now) insts)"
proof (induction insts arbitrary: s)
  case Nil
  then show ?case by (simp add: reached_def executedNumbers_simps)
next
  case (Cons inst rest)
  let ?s1 = "fst (whileDue (now - startTime inst) (s, inst))"
  obtain new1 where n1: "console ?s1 = console s @ new1"
    "executedNumbers new1 = reported now inst"
    using whileDue_console [of "now - startTime inst" s inst] by (auto simp: reported_def)
  obtain new2 where n2: "console (reached now rest ?s1) = console ?s1 @ new2"
    "executedNumbers new2 = concat (map (reported now) rest)"
    using Cons.IH [of ?s1] by blast
  have r: "reached now (inst # rest) s = reached now rest ?s1"
    by (simp add: reached_def)
  have "console (reached now (inst # rest) s) = console s @ (new1 @ new2)"
    by (simp add: r n1 n2)
  moreover have "executedNumbers (new1 @ new2) = concat (map (reported now) (inst # rest))"
    by (simp add: executedNumbers_append n1 n2)
  ultimately show ?case by blast
qed

lemma reached_console_prefix:
  "\<exists>new. console (reached now insts s) = console s @ new"
  using reached_console [of now insts s] by blast

lemma updateActiveScripts_reached:
  "updateActiveScripts dt now s =
     (reached now (activeScripts s) s)
       \<lparr>activeScripts := filter unfinished (map (advanced now) (activeScripts s))\<rparr>"
  by (simp add: updateActiveScripts_def filterActive_reached)

lemma update_reached:
  "update pad dt now s =
     (reached now (activeScripts s) (updateControlChannels pad dt s))
       \<lparr>activeScripts := filter unfinished (map (advanced now) (activeScripts s))\<rparr>"
  by (simp add: update_def updateActiveScripts_reached updateControlChannels_frame)

lemma update_console:
  "\<exists>new. console (update pad dt now s) = console s @ new \<and>
     executedNumbers new = concat (map (reported now) (activeScripts s))"
  using reached_console [of now "activeScripts s" "updateControlChannels pad dt s"]
  by (simp add: update_reached updateControlChannels_frame)

lemma update_reports_throw:
  assumes a: "activeScripts s = pre @ inst # post"
    and i: "nextActionIndex inst < length (actions inst)"
    and t: "time (actions inst ! nextActionIndex inst) \<le> now - startTime inst"
    and f: "action (actions inst ! nextActionIndex inst)
              (handle.truncate (reached now pre (updateControlChannels pad dt s))) = (out, Threw, h)"
  shows "ErrorExecuting (nextActionIndex inst + 1) (instId inst) \<in> set (console (update pad dt now s))"
    and "nextActionIndex inst < nextActionIndex (advanced now inst)"
proof -
  let ?u = "updateControlChannels pad dt s"
  let ?s1 = "reached now pre ?u"
  let ?e = "now - startTime inst"
  let ?line = "ErrorExecuting (nextActionIndex inst + 1) (instId inst)"
  let ?s2 = "?s1\<lparr>channels := channels h, motorThrusts := motorThrusts h,
      console := console ?s1 @ map CallbackOutput out @ [?line]\<rparr>"
  let ?i2 = "inst\<lparr>nextActionIndex := nextActionIndex inst + 1\<rparr>"
  have r: "runAction (?s1, inst) ?e = (?s2, ?i2)"
    using f by (simp add: runAction_threw)
  have w: "whileDue ?e (?s1, inst) = whileDue ?e (?s2, ?i2)"
    using i t by (simp add: whileDue_go r)
  obtain new1 where n1: "console (fst (whileDue ?e (?s2, ?i2))) = console ?s2 @ new1"
    using whileDue_console_prefix by blast
  obtain new2 where n2: "console (reached now post (fst (whileDue ?e (?s1, inst)))) =
      console (fst (whileDue ?e (?s1, inst))) @ new2"
    using reached_console_prefix by blast
  have "console (update pad dt now s) = console (reached now (pre @ inst # post) ?u)"
    by (simp add: update_reached a)
  also have "\<dots> = console (reached now post (fst (whileDue ?e (?s1, inst))))"
    by (simp only: reached_append)
  also have "\<dots> = console (fst (whileDue ?e (?s2, ?i2))) @ new2"
    by (simp only: n2) (simp only: w)
  also have "\<dots> = (console ?s2 @ new1) @ new2"
    by (simp only: n1)
  finally have "console (update pad dt now s) = (console ?s2 @ new1) @ new2" .
  then show "?line \<in> set (console (update pad dt now s))"
    by simp
  from i t show "nextActionIndex inst < nextActionIndex (advanced now inst)"
    by (simp add: advanced_def due_step)
qed

section \<open>Failing script actions\<close>

text \<open>
  Claim C7. When the action at the cursor is due and its closure throws, the error is caught:
  the update goes on from the state the closure left, with the error line on the console and
  the cursor one past the failed action, so the line stays on the console and the cursor has
  moved. Whatever the closures do, the cursor ends past the whole run of due actions, and an
  update at which all actions of all running instances are due leaves no instance running.
  For the whole update: whatever the closures do, the instances running after it are the
  instances running before it, each with its cursor behind its run of due actions, without
  those that have no action left; and when the action at the cursor of any running instance
  is due and throws in the state in which the update reaches that instance, the console
  after the update holds the error line of that action and the cursor of the instance has
  passed it.
\<close>

theorem C7_throwing_action_is_passed:
  "(nextActionIndex inst < length (actions inst) \<and>
    time (actions inst ! nextActionIndex inst) \<le> e \<and>
    action (actions inst ! nextActionIndex inst) (handle.truncate s) = (out, Threw, h) \<longrightarrow>
      whileDue e (s, inst) =
        whileDue e
          (s\<lparr>channels := channels h, motorThrusts := motorThrusts h,
             console := console s @ map CallbackOutput out @
               [ErrorExecuting (nextActionIndex inst + 1) (instId inst)]\<rparr>,
           inst\<lparr>nextActionIndex := nextActionIndex inst + 1\<rparr>) \<and>
      ErrorExecuting (nextActionIndex inst + 1) (instId inst)
        \<in> set (console (fst (whileDue e (s, inst)))) \<and>
      nextActionIndex inst < nextActionIndex (snd (whileDue e (s, inst)))) \<and>
   snd (whileDue e (s, inst)) =
     inst\<lparr>nextActionIndex := nextActionIndex inst + length (due e inst)\<rparr> \<and>
   ((\<forall>i\<in>set (activeScripts s). \<forall>a\<in>set (actions i). time a \<le> now - startTime i) \<longrightarrow>
      activeScripts (updateActiveScripts dt now s) = []) \<and>
   activeScripts (updateActiveScripts dt now s) =
     filter unfinished (map (advanced now) (activeScripts s)) \<and>
   activeScripts (update pad dt now s) =
     filter unfinished (map (advanced now) (activeScripts s)) \<and>
   (activeScripts s = pre @ inst1 # post \<and>
    nextActionIndex inst1 < length (actions inst1) \<and>
    time (actions inst1 ! nextActionIndex inst1) \<le> now - startTime inst1 \<and>
    action (actions inst1 ! nextActionIndex inst1)
      (handle.truncate (reached now pre (updateControlChannels pad dt s))) = (out1, Threw, h1) \<longrightarrow>
      ErrorExecuting (nextActionIndex inst1 + 1) (instId inst1)
        \<in> set (console (update pad dt now s)) \<and>
      nextActionIndex inst1 < nextActionIndex (advanced now inst1))"
proof (intro conjI impI)
  assume a: "nextActionIndex inst < length (actions inst) \<and>
    time (actions inst ! nextActionIndex inst) \<le> e \<and>
    action (actions inst ! nextActionIndex inst) (handle.truncate s) = (out, Threw, h)"
  let ?s1 = "s\<lparr>channels := channels h, motorThrusts := motorThrusts h,
             console := console s @ map CallbackOutput out @
               [ErrorExecuting (nextActionIndex inst + 1) (instId inst)]\<rparr>"
  let ?i1 = "inst\<lparr>nextActionIndex := nextActionIndex inst + 1\<rparr>"
  from a have r: "runAction (s, inst) e = (?s1, ?i1)"
    by (simp add: runAction_threw)
  from a show w: "whileDue e (s, inst) = whileDue e (?s1, ?i1)"
    by (simp add: whileDue_go r)
  obtain new where "console (fst (whileDue e (?s1, ?i1))) = console ?s1 @ new"
    using whileDue_console_prefix by blast
  then show "ErrorExecuting (nextActionIndex inst + 1) (instId inst)
        \<in> set (console (fst (whileDue e (s, inst))))"
    by (simp add: w)
  from a show "nextActionIndex inst < nextActionIndex (snd (whileDue e (s, inst)))"
    by (simp add: whileDue_cursor due_step)
next
  show "snd (whileDue e (s, inst)) =
     inst\<lparr>nextActionIndex := nextActionIndex inst + length (due e inst)\<rparr>"
    by (rule whileDue_cursor)
next
  assume "\<forall>i\<in>set (activeScripts s). \<forall>a\<in>set (actions i). time a \<le> now - startTime i"
  then show "activeScripts (updateActiveScripts dt now s) = []"
    by (rule updateActiveScripts_complete)
next
  show "activeScripts (updateActiveScripts dt now s) =
      filter unfinished (map (advanced now) (activeScripts s))"
    by (simp add: updateActiveScripts_reached)
  show "activeScripts (update pad dt now s) =
      filter unfinished (map (advanced now) (activeScripts s))"
    by (simp add: update_reached)
next
  assume b: "activeScripts s = pre @ inst1 # post \<and>
    nextActionIndex inst1 < length (actions inst1) \<and>
    time (actions inst1 ! nextActionIndex inst1) \<le> now - startTime inst1 \<and>
    action (actions inst1 ! nextActionIndex inst1)
      (handle.truncate (reached now pre (updateControlChannels pad dt s))) = (out1, Threw, h1)"
  then show "ErrorExecuting (nextActionIndex inst1 + 1) (instId inst1)
      \<in> set (console (update pad dt now s))"
    using update_reports_throw(1) [of s pre inst1 post now pad dt out1 h1] by blast
  from b show "nextActionIndex inst1 < nextActionIndex (advanced now inst1)"
    using update_reports_throw(2) [of s pre inst1 post now pad dt out1 h1] by blast
qed

theorem C7_throwing_action_witness:
  "ErrorExecuting 1 ''boom'' \<in> set (console (fst (whileDue 10 (throwingState, throwingInstance)))) \<and>
   nextActionIndex (snd (whileDue 10 (throwingState, throwingInstance))) = 1 \<and>
   activeScripts (updateActiveScripts 16 10 throwingState) = [] \<and>
   ErrorExecuting 1 ''boom'' \<in> set (console (update offPad 16 10 mixedState)) \<and>
   activeScripts (update offPad 16 10 mixedState) = [twoActionInstance\<lparr>nextActionIndex := 1\<rparr>]"
proof -
  note t = C7_throwing_action_is_passed
    [where inst = throwingInstance and e = 10 and s = throwingState and out = "[]"
       and h = "handle.truncate throwingState" and now = 10 and dt = 16]
  note m = C7_throwing_action_is_passed
    [where s = mixedState and now = 10 and dt = 16 and pad = offPad and pre = "[]"
       and ?inst1.0 = throwingInstance and post = "[twoActionInstance]" and ?out1.0 = "[]"
       and ?h1.0 = "handle.truncate (reached 10 [] (updateControlChannels offPad 16 mixedState))"
       and inst = throwingInstance and e = 10 and out = "[]" and h = "handle.truncate mixedState"]
  have mp: "activeScripts mixedState = [] @ throwingInstance # [twoActionInstance] \<and>
      nextActionIndex throwingInstance < length (actions throwingInstance) \<and>
      time (actions throwingInstance ! nextActionIndex throwingInstance) \<le> 10 - startTime throwingInstance \<and>
      action (actions throwingInstance ! nextActionIndex throwingInstance)
        (handle.truncate (reached 10 [] (updateControlChannels offPad 16 mixedState))) =
      ([], Threw, handle.truncate (reached 10 [] (updateControlChannels offPad 16 mixedState)))"
    by (simp add: mixedState_def throwingInstance_def)
  from m mp
  have "ErrorExecuting (nextActionIndex throwingInstance + 1) (instId throwingInstance)
      \<in> set (console (update offPad 16 10 mixedState))"
    by blast
  then have 4: "ErrorExecuting 1 ''boom'' \<in> set (console (update offPad 16 10 mixedState))"
    by (simp add: throwingInstance_def)
  from m have "activeScripts (update offPad 16 10 mixedState) =
      filter unfinished (map (advanced 10) (activeScripts mixedState))"
    by blast
  then have 5: "activeScripts (update offPad 16 10 mixedState) =
      [twoActionInstance\<lparr>nextActionIndex := 1\<rparr>]"
    by (simp add: mixedState_def advanced_def unfinished_def due_def throwingInstance_def
        twoActionInstance_def)
  have i: "nextActionIndex throwingInstance = 0" "instId throwingInstance = ''boom''"
    "length (actions throwingInstance) = 1" "time (actions throwingInstance ! 0) = 0"
    by (simp_all add: throwingInstance_def)
  have a: "action (actions throwingInstance ! 0) (handle.truncate throwingState) =
      ([], Threw, handle.truncate throwingState)"
    by (simp add: throwingInstance_def)
  have d: "length (due 10 throwingInstance) = 1"
    by (simp add: due_def throwingInstance_def)
  have b: "\<forall>i\<in>set (activeScripts throwingState). \<forall>a\<in>set (actions i). time a \<le> 10 - startTime i"
    by (simp add: throwingState_def throwingInstance_def)
  have pre: "nextActionIndex throwingInstance < length (actions throwingInstance) \<and>
      time (actions throwingInstance ! nextActionIndex throwingInstance) \<le> 10 \<and>
      action (actions throwingInstance ! nextActionIndex throwingInstance)
        (handle.truncate throwingState) = ([], Threw, handle.truncate throwingState)"
    using i a by simp
  from t pre
  have "ErrorExecuting (nextActionIndex throwingInstance + 1) (instId throwingInstance)
      \<in> set (console (fst (whileDue 10 (throwingState, throwingInstance))))"
    by blast
  then have 1: "ErrorExecuting 1 ''boom'' \<in> set (console (fst (whileDue 10 (throwingState, throwingInstance))))"
    by (simp add: i)
  from t have "snd (whileDue 10 (throwingState, throwingInstance)) =
      throwingInstance\<lparr>nextActionIndex := nextActionIndex throwingInstance + length (due 10 throwingInstance)\<rparr>"
    by blast
  then have 2: "nextActionIndex (snd (whileDue 10 (throwingState, throwingInstance))) = 1"
    by (simp add: i d)
  from t b have 3: "activeScripts (updateActiveScripts 16 10 throwingState) = []"
    by blast
  from 1 2 3 4 5 show ?thesis by simp
qed

lemma whileDue_unfold:
  "whileDue e (s, inst) =
     (if nextActionIndex inst < length (actions inst) \<and>
         time (actions inst ! nextActionIndex inst) \<le> e
      then whileDue e (fst (runAction (s, inst) e),
                       inst\<lparr>nextActionIndex := Suc (nextActionIndex inst)\<rparr>)
      else (s, inst))"
  using whileDue_go [of inst e s] whileDue_stop [of inst e s] runAction_pair [of s inst e]
  by auto

lemma runAction_fst_frame:
  "activeScripts (fst (runAction (s, inst) e)) = activeScripts s"
  by (rule runAction_frame)

lemma truncate_activeScripts_update:
  "handle.truncate (s\<lparr>activeScripts := x\<rparr>) = handle.truncate s"
  by (simp add: handle.truncate_def)

lemma two_action_timeline:
  fixes a0 a1 :: callback and s0 :: controls and key sid :: string
    and t0 e1 e2 t3 dt1 dt2 dt3 :: real and pad1 pad2 pad3 :: gamepad
  defines "acts \<equiv> [\<lparr>time = 0, action = a0\<rparr>, \<lparr>time = 1000, action = a1\<rparr>]"
  assumes b: "scriptBindings s0 key = Some sid" "sid \<noteq> []"
    and r: "scripts s0 sid = Some acts"
    and idle: "activeScripts s0 = []"
    and e1: "0 \<le> e1" "e1 < 1000" and e2: "1000 \<le> e2"
  defines "s1 \<equiv> onKeyDown key t0 s0"
  defines "s2 \<equiv> update pad1 dt1 (t0 + e1) s1"
  defines "s3 \<equiv> update pad2 dt2 (t0 + e2) s2"
  defines "s4 \<equiv> update pad3 dt3 t3 s3"
  shows "executedNumbers (console s2) = executedNumbers (console s0) @ [1] \<and>
         handle.truncate s2 = snd (snd (a0 (handle.truncate (updateControlChannels pad1 dt1 s1)))) \<and>
         executedNumbers (console s3) = executedNumbers (console s2) @ [2] \<and>
         handle.truncate s3 = snd (snd (a1 (handle.truncate (updateControlChannels pad2 dt2 s2)))) \<and>
         activeScripts s3 = [] \<and>
         executedNumbers (console s4) = executedNumbers (console s3) \<and>
         handle.truncate s4 = handle.truncate (updateControlChannels pad3 dt3 s3)"
proof -
  let ?inst0 = "\<lparr>instId = sid, actions = acts, startTime = t0, nextActionIndex = 0\<rparr>"
  let ?inst1 = "\<lparr>instId = sid, actions = acts, startTime = t0, nextActionIndex = Suc 0\<rparr>"
  let ?u1 = "updateControlChannels pad1 dt1 s1"
  let ?u2 = "updateControlChannels pad2 dt2 s2"
  have s1: "activeScripts s1 = [?inst0]" "executedNumbers (console s1) = executedNumbers (console s0)"
    using b r idle
    by (simp_all add: s1_def onKeyDown_def truthyString_def executeScript_def
        executedNumbers_append executedNumbers_def map_filter_def)
  have w1: "whileDue e1 (?u1, ?inst0) = (fst (runAction (?u1, ?inst0) e1), ?inst1)"
    using e1 by (simp add: whileDue_unfold acts_def)
  have s2: "s2 = (fst (runAction (?u1, ?inst0) e1))\<lparr>activeScripts := [?inst1]\<rparr>"
    by (simp add: s2_def update_def updateActiveScripts_def updateControlChannels_frame s1 w1)
       (simp add: acts_def)
  have c2: "executedNumbers (console s2) = executedNumbers (console s0) @ [1]"
    by (simp add: s2 runAction_executedNumbers updateControlChannels_frame s1)
  have h2: "handle.truncate s2 = snd (snd (a0 (handle.truncate ?u1)))"
    by (simp add: s2 truncate_activeScripts_update runAction_handle) (simp add: acts_def)
  have a2: "activeScripts s2 = [?inst1]" by (simp add: s2)
  have w2: "whileDue e2 (?u2, ?inst1) =
      (fst (runAction (?u2, ?inst1) e2),
       \<lparr>instId = sid, actions = acts, startTime = t0, nextActionIndex = Suc (Suc 0)\<rparr>)"
    using e2 by (simp add: whileDue_unfold acts_def)
  have s3: "s3 = (fst (runAction (?u2, ?inst1) e2))\<lparr>activeScripts := []\<rparr>"
    by (simp add: s3_def update_def updateActiveScripts_def updateControlChannels_frame a2 w2)
       (simp add: acts_def)
  have c3: "executedNumbers (console s3) = executedNumbers (console s2) @ [2]"
    by (simp add: s3 runAction_executedNumbers updateControlChannels_frame)
  have h3: "handle.truncate s3 = snd (snd (a1 (handle.truncate ?u2)))"
    by (simp add: s3 truncate_activeScripts_update runAction_handle) (simp add: acts_def)
  have a3: "activeScripts s3 = []" by (simp add: s3)
  have s4: "s4 = updateControlChannels pad3 dt3 s3"
    by (simp add: s4_def update_def updateActiveScripts_idle updateControlChannels_frame a3)
  show ?thesis
    by (simp add: c2 h2 c3 h3 a3 s4 updateControlChannels_frame)
qed

lemma lateInstance_sel:
  "startTime lateInstance = 0" "nextActionIndex lateInstance = 0"
  "length (actions lateInstance) = 2" "time (actions lateInstance ! 0) = 1000"
  "time (actions lateInstance ! 1) = 0" "time (actions lateInstance ! Suc 0) = 0"
  by (simp_all add: lateInstance_def)

lemma newControls_eval:
  "keyStates newControls = Map.empty"
  "activeScripts newControls = []"
  "controlRate newControls = 0.4"
  "executedNumbers (console newControls) = []"
  by (simp_all add: newControls_def registerDefaultScripts_def registerScript_def hoverScript_def
      yawSpinScript_def bindKeyToScript_def orUnchanged_def truthyArray_def Let_def
      executedNumbers_simps)

lemma scripted_eval:
  "scripts (scripted k i (JArray [entry t0 f0, entry t1 f1])) i =
     Some [\<lparr>time = t0, action = f0\<rparr>, \<lparr>time = t1, action = f1\<rparr>]"
  "scriptBindings (scripted k i (JArray [entry t0 f0, entry t1 f1])) k = Some i"
  "activeScripts (scripted k i (JArray [entry t0 f0, entry t1 f1])) = []"
  "executedNumbers (console (scripted k i (JArray [entry t0 f0, entry t1 f1]))) = []"
  "keyStates (scripted k i (JArray [entry t0 f0, entry t1 f1])) = Map.empty"
  "controlRate (scripted k i (JArray [entry t0 f0, entry t1 f1])) = 0.4"
  "channels (scripted k i (JArray [entry t0 f0, entry t1 f1])) = channels newControls"
  "motorThrusts (scripted k i (JArray [entry t0 f0, entry t1 f1])) = motorThrusts newControls"
  by (simp_all add: scripted_def registerScript_def entry_def bindKeyToScript_def orUnchanged_def
      truthyArray_def newControls_eval executedNumbers_append executedNumbers_simps)

lemma scripted_eval1:
  "scripts (scripted k i (JArray [entry t0 f0])) i = Some [\<lparr>time = t0, action = f0\<rparr>]"
  "scriptBindings (scripted k i (JArray [entry t0 f0])) k = Some i"
  "activeScripts (scripted k i (JArray [entry t0 f0])) = []"
  "keyStates (scripted k i (JArray [entry t0 f0])) = Map.empty"
  "controlRate (scripted k i (JArray [entry t0 f0])) = 0.4"
  "channels (scripted k i (JArray [entry t0 f0])) = channels newControls"
  "motorThrusts (scripted k i (JArray [entry t0 f0])) = motorThrusts newControls"
  by (simp_all add: scripted_def registerScript_def entry_def bindKeyToScript_def orUnchanged_def
      truthyArray_def newControls_eval)

lemma unsortedState_eval:
  "activeScripts unsortedState = [lateInstance]"
  "keyStates unsortedState = Map.empty"
  "executedNumbers (console unsortedState) = []"
  "channels unsortedState = channels newControls"
  by (simp_all add: unsortedState_def onKeyDown_def truthyString_def executeScript_def
      scripted_eval lateInstance_def executedNumbers_append executedNumbers_simps)

section \<open>Scripted timelines\<close>

text \<open>
  Claim C1, as stated, at a script whose offsets are not sorted: 500 ms after the key press
  the second action (offset 0) is due and the cursor (0) has not passed it, yet the update
  executes nothing, because the first action (offset 1000) is not due.
\<close>

theorem C1_unsorted_counterexample:
  "activeScripts unsortedState = [lateInstance] \<and>
   time (actions lateInstance ! 1) \<le> 500 - startTime lateInstance \<and>
   nextActionIndex lateInstance \<le> 1 \<and>
   activeScripts (update offPad 16 500 unsortedState) = [lateInstance] \<and>
   executedNumbers (console (update offPad 16 500 unsortedState)) = [] \<and>
   yaw (channels (update offPad 16 500 unsortedState)) = 0"
proof -
  let ?u = "updateControlChannels offPad 16 unsortedState"
  have w: "whileDue 500 (?u, lateInstance) = (?u, lateInstance)"
    by (simp add: whileDue_unfold lateInstance_sel)
  have u: "update offPad 16 500 unsortedState = ?u\<lparr>activeScripts := [lateInstance]\<rparr>"
    by (simp add: update_def updateActiveScripts_def updateControlChannels_frame
        unsortedState_eval lateInstance_sel w)
  have y: "yaw (channels ?u) = 0"
    by (simp add: updateControlChannels_def offPad_def yaw_keyboard unsortedState_eval
        truthyBool_def moveTowardsCenter_def newControls_handle)
  show ?thesis
    by (simp add: u updateControlChannels_frame unsortedState_eval y lateInstance_sel)
qed

lemma upt_join: "a \<le> b \<Longrightarrow> b \<le> c \<Longrightarrow> [a..<b] @ [b..<c] = [a..<c]"
  using upt_add_eq_append [of a b "c - b"] by simp

lemma advance_console:
  "nextActionIndex inst \<le> nextActionIndex (snd (advance es (s, inst))) \<and>
   (\<exists>new. console (fst (advance es (s, inst))) = console s @ new \<and>
      executedNumbers new =
        [Suc (nextActionIndex inst) ..< Suc (nextActionIndex (snd (advance es (s, inst))))])"
proof (induction es arbitrary: s inst)
  case Nil
  then show ?case by (simp add: advance_def executedNumbers_simps)
next
  case (Cons e es)
  let ?i1 = "inst\<lparr>nextActionIndex := nextActionIndex inst + length (due e inst)\<rparr>"
  obtain s1 where w: "whileDue e (s, inst) = (s1, ?i1)"
    using whileDue_cursor [of e s inst] by (cases "whileDue e (s, inst)") simp
  obtain new1 where n1: "console s1 = console s @ new1"
    "executedNumbers new1 =
       [Suc (nextActionIndex inst) ..< Suc (nextActionIndex inst + length (due e inst))]"
    using whileDue_console [of e s inst] by (auto simp: w)
  have step: "advance (e # es) (s, inst) = advance es (s1, ?i1)"
    by (simp add: advance_def w)
  from Cons.IH [of ?i1 s1] obtain new2 where
    m: "nextActionIndex inst + length (due e inst) \<le> nextActionIndex (snd (advance es (s1, ?i1)))"
    and n2: "console (fst (advance es (s1, ?i1))) = console s1 @ new2"
      "executedNumbers new2 =
         [Suc (nextActionIndex inst + length (due e inst)) ..<
          Suc (nextActionIndex (snd (advance es (s1, ?i1))))]"
    by auto
  have "[Suc (nextActionIndex inst) ..< Suc (nextActionIndex inst + length (due e inst))] @
        [Suc (nextActionIndex inst + length (due e inst)) ..<
          Suc (nextActionIndex (snd (advance es (s1, ?i1))))] =
        [Suc (nextActionIndex inst) ..< Suc (nextActionIndex (snd (advance es (s1, ?i1))))]"
    using m by (intro upt_join) simp_all
  then have "executedNumbers (new1 @ new2) =
      [Suc (nextActionIndex inst) ..< Suc (nextActionIndex (snd (advance es (s1, ?i1))))]"
    by (simp add: executedNumbers_append n1 n2)
  moreover have "console (fst (advance es (s1, ?i1))) = console s @ (new1 @ new2)"
    by (simp add: n1 n2)
  moreover from m have "nextActionIndex inst \<le> nextActionIndex (snd (advance es (s1, ?i1)))"
    by simp
  ultimately show ?case unfolding step by blast
qed

text \<open>
  Claim C1, amended. For an instance with cursor \<open>i\<close> at elapsed time \<open>e\<close>, one update runs
  exactly the actions of \<open>due e inst\<close>, the longest run of actions starting at the cursor
  whose offsets are at most \<open>e\<close>, one after the other in registration order; the cursor ends
  behind them, and the console reports the action numbers \<open>i + 1, \<dots>, i + length (due e inst)\<close>
  once each, in this order. Over any sequence of such updates the cursor never goes back and
  the numbers reported are those from the first cursor to the last, each once. A whole
  update at clock \<open>now\<close> does this to every running instance, in list order, each at its own
  elapsed time \<open>now - startTime\<close> and from the state the instances before it left: the
  instances running afterwards are those running before, each with its cursor behind its
  run, without those that have no action left, and the console reports the runs of all
  instances one after the other. When the
  offsets are sorted, the run is every action at or after the cursor whose offset is at most
  \<open>e\<close>. For a script with actions at 0 and 1000 ms
  bound to a key: after a press at \<open>t0\<close>, an update at elapsed \<open>e1\<close> in \<open>[0, 1000)\<close> executes
  the first action only, a following update at elapsed \<open>e2 \<ge> 1000\<close> executes the second
  action only and ends the instance, and a later update executes nothing.
\<close>

theorem C1_due_run_executed_once:
  "whileDue e (s, inst) = ((\<lambda>x. runAction x e) ^^ length (due e inst)) (s, inst) \<and>
   snd (whileDue e (s, inst)) =
     inst\<lparr>nextActionIndex := nextActionIndex inst + length (due e inst)\<rparr> \<and>
   (\<exists>new. console (fst (whileDue e (s, inst))) = console s @ new \<and>
      executedNumbers new =
        [Suc (nextActionIndex inst) ..< Suc (nextActionIndex inst + length (due e inst))]) \<and>
   nextActionIndex inst \<le> nextActionIndex (snd (advance es (s, inst))) \<and>
   (\<exists>new. console (fst (advance es (s, inst))) = console s @ new \<and>
      executedNumbers new =
        [Suc (nextActionIndex inst) ..< Suc (nextActionIndex (snd (advance es (s, inst))))] \<and>
      distinct (executedNumbers new)) \<and>
   update pad dt now su =
     (reached now (activeScripts su) (updateControlChannels pad dt su))
       \<lparr>activeScripts := filter unfinished (map (advanced now) (activeScripts su))\<rparr> \<and>
   reached now (pre @ instu # post) u =
     reached now post (fst (whileDue (now - startTime instu) (reached now pre u, instu))) \<and>
   (\<exists>new. console (update pad dt now su) = console su @ new \<and>
      executedNumbers new = concat (map (reported now) (activeScripts su))) \<and>
   (sorted (map time (actions inst)) \<longrightarrow>
      due e inst = filter (\<lambda>a. time a \<le> e) (drop (nextActionIndex inst) (actions inst))) \<and>
   (scriptBindings s0 key = Some sid \<and> sid \<noteq> [] \<and>
    scripts s0 sid = Some [\<lparr>time = 0, action = a0\<rparr>, \<lparr>time = 1000, action = a1\<rparr>] \<and>
    activeScripts s0 = [] \<and> 0 \<le> e1 \<and> e1 < 1000 \<and> 1000 \<le> e2 \<longrightarrow>
      (let s1 = onKeyDown key t0 s0;
           s2 = update pad1 dt1 (t0 + e1) s1;
           s3 = update pad2 dt2 (t0 + e2) s2;
           s4 = update pad3 dt3 t3 s3
       in executedNumbers (console s2) = executedNumbers (console s0) @ [1] \<and>
          handle.truncate s2 =
            snd (snd (a0 (handle.truncate (updateControlChannels pad1 dt1 s1)))) \<and>
          executedNumbers (console s3) = executedNumbers (console s2) @ [2] \<and>
          handle.truncate s3 =
            snd (snd (a1 (handle.truncate (updateControlChannels pad2 dt2 s2)))) \<and>
          activeScripts s3 = [] \<and>
          executedNumbers (console s4) = executedNumbers (console s3) \<and>
          handle.truncate s4 = handle.truncate (updateControlChannels pad3 dt3 s3)))"
proof (intro conjI impI)
  show "whileDue e (s, inst) = ((\<lambda>x. runAction x e) ^^ length (due e inst)) (s, inst)"
    using whileDue_iterate [of e "(s, inst)"] by simp
  show "snd (whileDue e (s, inst)) =
     inst\<lparr>nextActionIndex := nextActionIndex inst + length (due e inst)\<rparr>"
    by (rule whileDue_cursor)
  show "\<exists>new. console (fst (whileDue e (s, inst))) = console s @ new \<and>
      executedNumbers new =
        [Suc (nextActionIndex inst) ..< Suc (nextActionIndex inst + length (due e inst))]"
    by (rule whileDue_console)
  show "nextActionIndex inst \<le> nextActionIndex (snd (advance es (s, inst)))"
    using advance_console [of inst es s] by simp
  obtain new where "console (fst (advance es (s, inst))) = console s @ new"
    "executedNumbers new =
       [Suc (nextActionIndex inst) ..< Suc (nextActionIndex (snd (advance es (s, inst))))]"
    using advance_console [of inst es s] by blast
  moreover from this have "distinct (executedNumbers new)" by simp
  ultimately show "\<exists>new. console (fst (advance es (s, inst))) = console s @ new \<and>
      executedNumbers new =
        [Suc (nextActionIndex inst) ..< Suc (nextActionIndex (snd (advance es (s, inst))))] \<and>
      distinct (executedNumbers new)"
    by blast
  show "update pad dt now su =
      (reached now (activeScripts su) (updateControlChannels pad dt su))
        \<lparr>activeScripts := filter unfinished (map (advanced now) (activeScripts su))\<rparr>"
    by (rule update_reached)
  show "reached now (pre @ instu # post) u =
      reached now post (fst (whileDue (now - startTime instu) (reached now pre u, instu)))"
    by (rule reached_append)
  show "\<exists>new. console (update pad dt now su) = console su @ new \<and>
      executedNumbers new = concat (map (reported now) (activeScripts su))"
    by (rule update_console)
next
  assume "sorted (map time (actions inst))"
  then have "sorted (map time (drop (nextActionIndex inst) (actions inst)))"
    by (simp add: drop_map [symmetric] sorted_wrt_drop)
  then show "due e inst = filter (\<lambda>a. time a \<le> e) (drop (nextActionIndex inst) (actions inst))"
    unfolding due_def by (rule sorted_takeWhile_filter)
next
  assume a: "scriptBindings s0 key = Some sid \<and> sid \<noteq> [] \<and>
    scripts s0 sid = Some [\<lparr>time = 0, action = a0\<rparr>, \<lparr>time = 1000, action = a1\<rparr>] \<and>
    activeScripts s0 = [] \<and> 0 \<le> e1 \<and> e1 < 1000 \<and> 1000 \<le> e2"
  then show "let s1 = onKeyDown key t0 s0;
           s2 = update pad1 dt1 (t0 + e1) s1;
           s3 = update pad2 dt2 (t0 + e2) s2;
           s4 = update pad3 dt3 t3 s3
       in executedNumbers (console s2) = executedNumbers (console s0) @ [1] \<and>
          handle.truncate s2 =
            snd (snd (a0 (handle.truncate (updateControlChannels pad1 dt1 s1)))) \<and>
          executedNumbers (console s3) = executedNumbers (console s2) @ [2] \<and>
          handle.truncate s3 =
            snd (snd (a1 (handle.truncate (updateControlChannels pad2 dt2 s2)))) \<and>
          activeScripts s3 = [] \<and>
          executedNumbers (console s4) = executedNumbers (console s3) \<and>
          handle.truncate s4 = handle.truncate (updateControlChannels pad3 dt3 s3)"
    unfolding Let_def
    by (intro two_action_timeline) blast+
qed

lemma twoActionInstance_sel:
  "nextActionIndex twoActionInstance = 0"
  "sorted (map time (actions twoActionInstance))"
  "length (filter (\<lambda>a. time a \<le> 999) (actions twoActionInstance)) = 1"
  by (simp_all add: twoActionInstance_def)

theorem C1_two_action_witness:
  "snd (whileDue 999 (newControls, twoActionInstance)) = twoActionInstance\<lparr>nextActionIndex := 1\<rparr> \<and>
   executedNumbers (console (update offPad 16 (5 + 999) (onKeyDown ''KeyT'' 5 twoActionState))) = [1] \<and>
   executedNumbers (console (update offPad 16 (5 + 1000)
     (update offPad 16 (5 + 999) (onKeyDown ''KeyT'' 5 twoActionState)))) = [1, 2] \<and>
   activeScripts (update offPad 16 (5 + 1000)
     (update offPad 16 (5 + 999) (onKeyDown ''KeyT'' 5 twoActionState))) = [] \<and>
   activeScripts (update offPad 16 1004 pairState) = [twoActionInstance\<lparr>nextActionIndex := 1\<rparr>] \<and>
   executedNumbers (console (update offPad 16 1004 pairState)) = [1, 2, 1]"
proof -
  note p = C1_due_run_executed_once
    [where su = pairState and pad = offPad and dt = 16 and now = 1004 and e = 999
       and s = newControls and inst = twoActionInstance and es = "[]" and pre = "[]"
       and instu = lateInstance and post = "[]" and u = newControls]
  from p have "update offPad 16 1004 pairState =
      (reached 1004 (activeScripts pairState) (updateControlChannels offPad 16 pairState))
        \<lparr>activeScripts := filter unfinished (map (advanced 1004) (activeScripts pairState))\<rparr>"
    by blast
  then have "activeScripts (update offPad 16 1004 pairState) =
      filter unfinished (map (advanced 1004) (activeScripts pairState))"
    by simp
  then have p1: "activeScripts (update offPad 16 1004 pairState) =
      [twoActionInstance\<lparr>nextActionIndex := 1\<rparr>]"
    by (simp add: pairState_def advanced_def unfinished_def due_def lateInstance_def
        twoActionInstance_def)
  from p obtain new where "console (update offPad 16 1004 pairState) = console pairState @ new"
    "executedNumbers new = concat (map (reported 1004) (activeScripts pairState))"
    by blast
  then have "executedNumbers (console (update offPad 16 1004 pairState)) =
      executedNumbers (console pairState) @ concat (map (reported 1004) (activeScripts pairState))"
    by (simp add: executedNumbers_append)
  then have p2: "executedNumbers (console (update offPad 16 1004 pairState)) = [1, 2, 1]"
    by (simp add: pairState_def newControls_eval reported_def due_def lateInstance_def
        twoActionInstance_def upt_rec)
  note t = C1_due_run_executed_once
    [where e = 999 and s = newControls and inst = twoActionInstance and es = "[]"
       and ?s0.0 = twoActionState
       and key = "''KeyT''" and sid = "''two''" and ?a0.0 = "setYaw 0.1" and ?a1.0 = "setYaw 0.2"
       and ?e1.0 = 999 and ?e2.0 = 1000 and ?t0.0 = 5 and ?pad1.0 = offPad and ?pad2.0 = offPad
       and ?pad3.0 = offPad and ?dt1.0 = 16 and ?dt2.0 = 16 and ?dt3.0 = 16 and ?t3.0 = 2000]
  have hyp: "scriptBindings twoActionState ''KeyT'' = Some ''two'' \<and> ''two'' \<noteq> [] \<and>
      scripts twoActionState ''two'' =
        Some [\<lparr>time = 0, action = setYaw 0.1\<rparr>, \<lparr>time = 1000, action = setYaw 0.2\<rparr>] \<and>
      activeScripts twoActionState = [] \<and> (0::real) \<le> 999 \<and> (999::real) < 1000 \<and>
      (1000::real) \<le> 1000"
    by (simp add: twoActionState_def scripted_eval)
  from t hyp
  have ex: "executedNumbers (console (update offPad 16 (5 + 999) (onKeyDown ''KeyT'' 5 twoActionState))) =
        executedNumbers (console twoActionState) @ [1] \<and>
      executedNumbers (console (update offPad 16 (5 + 1000)
          (update offPad 16 (5 + 999) (onKeyDown ''KeyT'' 5 twoActionState)))) =
        executedNumbers (console (update offPad 16 (5 + 999) (onKeyDown ''KeyT'' 5 twoActionState))) @ [2] \<and>
      activeScripts (update offPad 16 (5 + 1000)
          (update offPad 16 (5 + 999) (onKeyDown ''KeyT'' 5 twoActionState))) = []"
    unfolding Let_def by blast
  have c0: "executedNumbers (console twoActionState) = []"
    by (simp add: twoActionState_def scripted_eval)
  from t twoActionInstance_sel(2)
  have "due 999 twoActionInstance =
      filter (\<lambda>a. time a \<le> 999) (drop (nextActionIndex twoActionInstance) (actions twoActionInstance))"
    by blast
  then have d: "length (due 999 twoActionInstance) = 1"
    by (simp add: twoActionInstance_sel)
  from t have "snd (whileDue 999 (newControls, twoActionInstance)) =
      twoActionInstance\<lparr>nextActionIndex :=
        nextActionIndex twoActionInstance + length (due 999 twoActionInstance)\<rparr>"
    by blast
  then have c: "snd (whileDue 999 (newControls, twoActionInstance)) =
      twoActionInstance\<lparr>nextActionIndex := 1\<rparr>"
    by (simp add: d twoActionInstance_sel)
  from ex c0 c p1 p2 show ?thesis by simp
qed

text \<open>
  The value reached from \<open>v\<close> after \<open>n\<close> steps of size 0.005 towards 0 that stop at 0.
\<close>

text \<open>
  An engine on which \<^verbatim>\<open>registerScript('', [])\<close> and \<^verbatim>\<open>bindKeyToScript('KeyA', '')\<close> have been
  called.
\<close>

section \<open>Gamepad mode\<close>



section \<open>Centering of unused axes\<close>

lemma pitch_keyboard:
  "pitch (channels (updateKeyboardControls s)) =
    (let k = keyStates s; r = controlRate s; v = pitch (channels s);
         v = (if truthyBool (k ''ArrowRight'') then clampValue (v + r) (-1) 1 else v);
         v = (if truthyBool (k ''ArrowLeft'') then clampValue (v - r) (-1) 1 else v)
     in if \<not> truthyBool (k ''ArrowRight'') \<and> \<not> truthyBool (k ''ArrowLeft'')
        then moveTowardsCenter v else v)"
  by (simp add: updateKeyboardControls_def centerUnusedControls_def Let_def)

lemma roll_keyboard:
  "roll (channels (updateKeyboardControls s)) =
    (let k = keyStates s; r = controlRate s; v = roll (channels s);
         v = (if truthyBool (k ''ArrowDown'') then clampValue (v - r) (-1) 1 else v);
         v = (if truthyBool (k ''ArrowUp'') then clampValue (v + r) (-1) 1 else v)
     in if \<not> truthyBool (k ''ArrowDown'') \<and> \<not> truthyBool (k ''ArrowUp'')
        then moveTowardsCenter v else v)"
  by (simp add: updateKeyboardControls_def centerUnusedControls_def Let_def)






















section \<open>Keys bound to scripts\<close>

text \<open>
  A key whose binding reads as a non-empty script id never reaches the key-state table, and
  its press changes neither channels nor motor thrusts.
\<close>

lemma bound_key_leaves_keyStates:
  assumes "truthyString (scriptBindings s key)"
  shows "keyStates (onKeyDown key now s) = keyStates s"
    and "keyStates (onKeyUp key s) = keyStates s"
    and "channels (onKeyDown key now s) = channels s"
    and "motorThrusts (onKeyDown key now s) = motorThrusts s"
    and "onKeyUp key s = s"
  using assms
  by (simp_all add: onKeyDown_def onKeyUp_def executeScript_def split: option.splits)

lemma emptyIdState_eval:
  "scripts emptyIdState [] = Some []"
  "scriptBindings emptyIdState ''KeyA'' = Some []"
  "keyStates emptyIdState = Map.empty"
  "activeScripts emptyIdState = []"
  "controlRate emptyIdState = 0.4"
  "channels emptyIdState = channels newControls"
  by (simp_all add: emptyIdState_def scripted_def registerScript_def bindKeyToScript_def
      orUnchanged_def truthyArray_def newControls_eval)

text \<open>
  Claim C10 at a key bound to the script registered under the empty id: the binding is
  written, but it reads as false in both handlers, so a press starts no instance, is
  recorded in the key-state table and moves yaw by the keyboard rate at the next update,
  and the release is recorded as well.
\<close>

theorem C10_empty_id_key_is_a_control_key:
  "scripts emptyIdState [] = Some [] \<and>
   scriptBindings emptyIdState ''KeyA'' = Some [] \<and>
   keyStates (onKeyDown ''KeyA'' 0 emptyIdState) ''KeyA'' = Some True \<and>
   activeScripts (onKeyDown ''KeyA'' 0 emptyIdState) = [] \<and>
   yaw (channels (update offPad 16 16 (onKeyDown ''KeyA'' 0 emptyIdState))) = - 0.4 \<and>
   keyStates (onKeyUp ''KeyA'' (onKeyDown ''KeyA'' 0 emptyIdState)) ''KeyA'' = Some False"
proof -
  let ?s = "onKeyDown ''KeyA'' 0 emptyIdState"
  have d: "?s = emptyIdState\<lparr>keyStates := [''KeyA'' \<mapsto> True]\<rparr>"
    by (simp add: onKeyDown_def emptyIdState_eval truthyString_def)
  have u: "update offPad 16 16 ?s = updateKeyboardControls ?s"
    by (simp add: d update_def updateControlChannels_def offPad_def updateActiveScripts_idle
        updateKeyboardControls_frame emptyIdState_eval)
  have y: "yaw (channels (updateKeyboardControls ?s)) = - 0.4"
    by (simp add: d yaw_keyboard emptyIdState_eval truthyBool_def clampValue_def
        newControls_handle)
  show ?thesis
    by (simp add: u y) (simp add: d onKeyUp_def emptyIdState_eval truthyString_def)
qed

section \<open>Rejected registrations and bindings\<close>

text \<open>
  A value that is not an array, and an array with an entry (an object or a primitive) that
  lacks a numeric \<^verbatim>\<open>time\<close> or a function \<^verbatim>\<open>action\<close> before any \<^verbatim>\<open>null\<close> or \<^verbatim>\<open>undefined\<close>
  entry, are reported on the console and change nothing else; so is a binding to an id
  that has no script.
\<close>

lemma registerScript_not_array:
  assumes "\<forall>es. v \<noteq> JArray es"
  shows "registerScript scriptId v s = Inr (s\<lparr>console := console s @ [ErrorNotArray]\<rparr>)"
  using assms by (cases v) (simp_all add: registerScript_def)

lemma registerScript_bad_entry:
  assumes "validateActions es = Inr None"
  shows "registerScript scriptId (JArray es) s = Inr (s\<lparr>console := console s @ [ErrorBadAction]\<rparr>)"
  using assms by (simp add: registerScript_def)

lemma validateActions_bad_head:
  assumes "e \<noteq> JUndefined" and "e \<noteq> JNull"
    and "(\<forall>t. getProp e ''time'' \<noteq> Inr (JNumber t)) \<or> (\<forall>f. getProp e ''action'' \<noteq> Inr (JFunction f))"
  shows "validateActions (e # es) = Inr None"
  using assms
  by (cases e) (auto split: sum.splits jsval.splits option.splits)

lemma bindKeyToScript_unknown:
  assumes "scripts s scriptId = None"
  shows "bindKeyToScript keyCode scriptId s =
           s\<lparr>console := console s @ [ErrorUnknownScript keyCode scriptId]\<rparr>"
  using assms by (simp add: bindKeyToScript_def truthyArray_def)

text \<open>
  Claim C6 at an array with a \<^verbatim>\<open>null\<close> or \<^verbatim>\<open>undefined\<close> entry that the loop reaches: reading
  \<^verbatim>\<open>action.time\<close> throws, so the failure is raised, not reported. An entry that fails the
  check earlier in the array is reported before the loop gets there.
\<close>

theorem C6_null_entry_is_raised:
  "registerScript ''x'' (JArray [JNull]) newControls = Inl TypeError \<and>
   registerScript ''x'' (JArray [entry 0 (setYaw 0.1), JUndefined]) newControls = Inl TypeError \<and>
   registerScript ''x'' (JArray [JObject [(''time'', JString ''soon'')], JNull]) newControls =
     Inr (newControls\<lparr>console := console newControls @ [ErrorBadAction]\<rparr>)"
  by (simp add: registerScript_def entry_def)

section \<open>Ranges of channels and motor thrusts\<close>

lemma clampValue_range: "lo \<le> hi \<Longrightarrow> lo \<le> clampValue v lo hi \<and> clampValue v lo hi \<le> hi"
  by (simp add: clampValue_def)

lemma moveTowardsCenter_range:
  "- 1 \<le> v \<Longrightarrow> v \<le> 1 \<Longrightarrow> - 1 \<le> moveTowardsCenter v \<and> moveTowardsCenter v \<le> 1"
  by (auto simp: moveTowardsCenter_def Let_def max_def min_def)

lemma moveTowardsZero_range:
  "0 \<le> v \<Longrightarrow> v \<le> 1 \<Longrightarrow> 0 \<le> moveTowardsZero v \<and> moveTowardsZero v \<le> 1"
  by (auto simp: moveTowardsZero_def Let_def max_def)

lemma motor_keyboard:
  "motor2 (motorThrusts (updateKeyboardControls s)) =
    (if truthyBool (keyStates s ''Digit2'') then clampValue (motor2 (motorThrusts s) + controlRate s) 0 1
     else clampValue (motor2 (motorThrusts s) - controlRate s) 0 1)"
  "motor3 (motorThrusts (updateKeyboardControls s)) =
    (if truthyBool (keyStates s ''Digit3'') then clampValue (motor3 (motorThrusts s) + controlRate s) 0 1
     else clampValue (motor3 (motorThrusts s) - controlRate s) 0 1)"
  "motor4 (motorThrusts (updateKeyboardControls s)) =
    (if truthyBool (keyStates s ''Digit4'') then clampValue (motor4 (motorThrusts s) + controlRate s) 0 1
     else clampValue (motor4 (motorThrusts s) - controlRate s) 0 1)"
  by (simp_all add: updateKeyboardControls_def centerUnusedControls_frame Let_def)

lemma updateKeyboardControls_inRange:
  assumes "inRange (channels s) (motorThrusts s)"
  shows "inRange (channels (updateKeyboardControls s)) (motorThrusts (updateKeyboardControls s))"
proof -
  have c: "\<And>v. - 1 \<le> clampValue v (- 1) 1 \<and> clampValue v (- 1) 1 \<le> 1"
    "\<And>v. 0 \<le> clampValue v 0 1 \<and> clampValue v 0 1 \<le> 1"
    by (simp_all add: clampValue_range)
  have y: "- 1 \<le> yaw (channels (updateKeyboardControls s)) \<and> yaw (channels (updateKeyboardControls s)) \<le> 1"
    using assms c moveTowardsCenter_range [of "yaw (channels s)"]
    by (simp add: yaw_keyboard inRange_def Let_def)
  have p: "- 1 \<le> pitch (channels (updateKeyboardControls s)) \<and> pitch (channels (updateKeyboardControls s)) \<le> 1"
    using assms c moveTowardsCenter_range [of "pitch (channels s)"]
    by (simp add: pitch_keyboard inRange_def Let_def)
  have r: "- 1 \<le> roll (channels (updateKeyboardControls s)) \<and> roll (channels (updateKeyboardControls s)) \<le> 1"
    using assms c moveTowardsCenter_range [of "roll (channels s)"]
    by (simp add: roll_keyboard inRange_def Let_def)
  have t: "0 \<le> throttle (channels (updateKeyboardControls s)) \<and> throttle (channels (updateKeyboardControls s)) \<le> 1"
    using assms c moveTowardsZero_range [of "throttle (channels s)"]
    by (simp add: throttle_keyboard inRange_def Let_def)
  have m: "0 \<le> motor1 (motorThrusts (updateKeyboardControls s)) \<and> motor1 (motorThrusts (updateKeyboardControls s)) \<le> 1"
    "0 \<le> motor2 (motorThrusts (updateKeyboardControls s)) \<and> motor2 (motorThrusts (updateKeyboardControls s)) \<le> 1"
    "0 \<le> motor3 (motorThrusts (updateKeyboardControls s)) \<and> motor3 (motorThrusts (updateKeyboardControls s)) \<le> 1"
    "0 \<le> motor4 (motorThrusts (updateKeyboardControls s)) \<and> motor4 (motorThrusts (updateKeyboardControls s)) \<le> 1"
    using c by (simp_all add: motor1_keyboard motor_keyboard)
  from y p r t m show ?thesis
    unfolding inRange_def by blast
qed

lemma updateControlChannels_inRange:
  assumes "inRange (channels s) (motorThrusts s)"
  shows "inRange (channels (updateControlChannels pad dt s))
                 (motorThrusts (updateControlChannels pad dt s))"
proof (cases "connected pad")
  case True
  obtain a0 a1 a2 a3 where a: "axes pad = (a0, a1, a2, a3)" by (cases "axes pad")
  from True a assms show ?thesis
    by (simp add: updateControlChannels_def inRange_def clampValue_range)
next
  case False
  then have "updateControlChannels pad dt s = updateKeyboardControls s"
    by (simp add: updateControlChannels_def split: prod.splits)
  with assms show ?thesis by (simp add: updateKeyboardControls_inRange)
qed

lemma runAction_inRange:
  assumes "inRange (channels s) (motorThrusts s)"
    and "keepsRange (action (actions inst ! nextActionIndex inst))"
  shows "inRange (channels (fst (runAction (s, inst) e))) (motorThrusts (fst (runAction (s, inst) e)))"
proof -
  have h: "channels (handle.truncate s) = channels s" "motorThrusts (handle.truncate s) = motorThrusts s"
    by (simp_all add: handle.truncate_def)
  have "channels (fst (runAction (s, inst) e)) = channels (handle.truncate (fst (runAction (s, inst) e)))"
    "motorThrusts (fst (runAction (s, inst) e)) = motorThrusts (handle.truncate (fst (runAction (s, inst) e)))"
    by (simp_all add: handle.truncate_def)
  then show ?thesis
    using assms by (simp add: runAction_handle keepsRange_def h)
qed

lemma whileDue_inRange:
  assumes "inRange (channels s) (motorThrusts s)"
    and "\<forall>a\<in>set (actions inst). keepsRange (action a)"
  shows "inRange (channels (fst (whileDue e (s, inst)))) (motorThrusts (fst (whileDue e (s, inst))))"
  using assms
proof (induction e "(s, inst)" arbitrary: s inst rule: whileDue.induct)
  case (1 e s inst)
  show ?case
  proof (cases "nextActionIndex inst < length (actions inst) \<and>
                time (actions inst ! nextActionIndex inst) \<le> e")
    case True
    let ?s1 = "fst (runAction (s, inst) e)"
    let ?i1 = "inst\<lparr>nextActionIndex := Suc (nextActionIndex inst)\<rparr>"
    have r: "runAction (s, inst) e = (?s1, ?i1)" by (rule runAction_pair)
    from True "1.prems" have "keepsRange (action (actions inst ! nextActionIndex inst))"
      by simp
    with "1.prems" have s1: "inRange (channels ?s1) (motorThrusts ?s1)"
      by (simp add: runAction_inRange)
    have "inRange (channels (fst (whileDue e (?s1, ?i1)))) (motorThrusts (fst (whileDue e (?s1, ?i1))))"
      using "1.hyps" [of ?s1 ?i1] True r s1 "1.prems"(2) by simp
    moreover from True have "whileDue e (s, inst) = whileDue e (?s1, ?i1)"
      using whileDue_go [of inst e s] r by simp
    ultimately show ?thesis by simp
  next
    case False
    then have "whileDue e (s, inst) = (s, inst)" by (rule whileDue_stop)
    with "1.prems" show ?thesis by simp
  qed
qed

lemma filterActive_tame:
  assumes "inRange (channels s) (motorThrusts s)"
    and "\<forall>inst\<in>set insts. \<forall>a\<in>set (actions inst). keepsRange (action a)"
  shows "inRange (channels (snd (filterActive now insts s))) (motorThrusts (snd (filterActive now insts s))) \<and>
         (\<forall>inst\<in>set (fst (filterActive now insts s)). \<forall>a\<in>set (actions inst). keepsRange (action a))"
  using assms
proof (induction insts arbitrary: s)
  case Nil
  then show ?case by simp
next
  case (Cons inst rest)
  obtain s1 inst1 where w: "whileDue (now - startTime inst) (s, inst) = (s1, inst1)"
    by (cases "whileDue (now - startTime inst) (s, inst)")
  obtain kept s2 where f: "filterActive now rest s1 = (kept, s2)"
    by (cases "filterActive now rest s1")
  from Cons.prems have t: "\<forall>a\<in>set (actions inst). keepsRange (action a)" by simp
  from whileDue_inRange [OF Cons.prems(1) t, of "now - startTime inst"]
  have s1: "inRange (channels s1) (motorThrusts s1)" by (simp add: w)
  from whileDue_cursor [of "now - startTime inst" s inst]
  have "actions inst1 = actions inst" by (simp add: w)
  with t have t1: "\<forall>a\<in>set (actions inst1). keepsRange (action a)" by simp
  from Cons.prems have "\<forall>inst\<in>set rest. \<forall>a\<in>set (actions inst). keepsRange (action a)" by simp
  from Cons.IH [OF s1 this] t1 show ?case by (simp add: w f)
qed

lemma updateActiveScripts_tame:
  assumes "tameState s"
  shows "tameState (updateActiveScripts dt now s)"
proof -
  obtain kept s1 where f: "filterActive now (activeScripts s) s = (kept, s1)"
    by (cases "filterActive now (activeScripts s) s")
  from assms filterActive_tame [of s "activeScripts s" now]
  have "inRange (channels s1) (motorThrusts s1)"
    and "\<forall>inst\<in>set kept. \<forall>a\<in>set (actions inst). keepsRange (action a)"
    by (simp_all add: tameState_def f)
  moreover from filterActive_frame [of now "activeScripts s" s] have "scripts s1 = scripts s"
    by (simp add: f)
  ultimately show ?thesis
    using assms by (simp add: tameState_def updateActiveScripts_def f)
qed

lemma update_tame:
  assumes "tameState s"
  shows "tameState (update pad dt now s)"
proof -
  from assms have "tameState (updateControlChannels pad dt s)"
    by (simp add: tameState_def updateControlChannels_inRange updateControlChannels_frame)
  then show ?thesis by (simp add: update_def updateActiveScripts_tame)
qed

lemma validateActions_tame:
  assumes "validateActions es = Inr (Some acts)" and "\<forall>e\<in>set es. tameEntry e"
  shows "\<forall>a\<in>set acts. keepsRange (action a)"
  using assms
proof (induction es arbitrary: acts)
  case Nil
  then show ?case by simp
next
  case (Cons e es)
  from Cons.prems(1) obtain t f rest where
    p: "getProp e ''action'' = Inr (JFunction f)" "validateActions es = Inr (Some rest)"
       "acts = \<lparr>time = t, action = f\<rparr> # rest"
    by (auto split: sum.splits jsval.splits option.splits)
  from Cons.prems(2) p(1) have "keepsRange f" by (simp add: tameEntry_def)
  moreover from Cons.IH [OF p(2)] Cons.prems(2) have "\<forall>a\<in>set rest. keepsRange (action a)"
    by simp
  ultimately show ?case by (simp add: p(3))
qed

lemma registerScript_tame:
  assumes "tameState s" and "tameEvent (RegisterScript scriptId v)"
  shows "tameState (orUnchanged s (registerScript scriptId v s))"
proof (cases v)
  case (JArray es)
  show ?thesis
  proof (cases "validateActions es")
    case (Inl err)
    with assms JArray show ?thesis by (simp add: registerScript_def orUnchanged_def)
  next
    case (Inr r)
    show ?thesis
    proof (cases r)
      case None
      with assms JArray Inr show ?thesis
        by (simp add: registerScript_def orUnchanged_def tameState_def)
    next
      case (Some acts)
      from assms(2) JArray have "\<forall>e\<in>set es. tameEntry e" by simp
      with Inr Some have "\<forall>a\<in>set acts. keepsRange (action a)"
        using validateActions_tame by blast
      with assms(1) JArray Inr Some show ?thesis
        by (simp add: registerScript_def orUnchanged_def tameState_def)
    qed
  qed
qed (use assms in \<open>simp_all add: registerScript_def orUnchanged_def tameState_def\<close>)

lemma executeScript_tame:
  assumes "tameState s"
  shows "tameState (executeScript scriptId now s)"
  using assms
  by (auto simp: executeScript_def tameState_def split: option.splits)

lemma applyEvent_tame:
  assumes "tameState s" and "tameEvent ev"
  shows "tameState (applyEvent ev s)"
proof (cases ev)
  case (KeyDown key now)
  with assms show ?thesis
    by (simp add: onKeyDown_def executeScript_tame) (simp add: tameState_def)
next
  case (KeyUp key)
  with assms show ?thesis by (simp add: onKeyUp_def tameState_def)
next
  case (Update pad dt now)
  with assms show ?thesis by (simp add: update_tame)
next
  case (RegisterScript scriptId v)
  with assms show ?thesis by (simp add: registerScript_tame)
next
  case (BindKeyToScript keyCode scriptId)
  with assms show ?thesis by (simp add: bindKeyToScript_def tameState_def)
next
  case (ExecuteScript scriptId now)
  with assms show ?thesis by (simp add: executeScript_tame)
qed

lemma run_tame:
  assumes "tameState s" and "\<forall>ev\<in>set evs. tameEvent ev"
  shows "tameState (run evs s)"
  using assms
proof (induction evs arbitrary: s)
  case Nil
  then show ?case by (simp add: run_def)
next
  case (Cons ev evs)
  from Cons.prems have "tameState (applyEvent ev s)" by (simp add: applyEvent_tame)
  from Cons.IH [OF this] Cons.prems(2) show ?case by (simp add: run_def)
qed

lemma newControls_tame: "tameState newControls"
proof -
  have "\<forall>i acts. scripts newControls i = Some acts \<longrightarrow> (\<forall>a\<in>set acts. keepsRange (action a))"
    by (auto simp: newControls_def registerDefaultScripts_def registerScript_def hoverScript_def
        yawSpinScript_def bindKeyToScript_def orUnchanged_def truthyArray_def Let_def
        keepsRange_def inRange_def split: if_splits)
  then show ?thesis
    by (simp add: tameState_def newControls_eval newControls_handle inRange_def)
qed

text \<open>
  Claim C2, amended. From the constructed engine, after any sequence of key events, updates
  with any gamepad state, registrations, bindings and script starts in which every
  registered script action keeps the ranges, roll, pitch and yaw are in \<open>[-1, 1]\<close> and
  throttle and the four motor thrusts are in \<open>[0, 1]\<close>.
\<close>

theorem C2_range_invariant:
  assumes "\<forall>ev\<in>set evs. tameEvent ev"
  shows "inRange (channels (run evs newControls)) (motorThrusts (run evs newControls))"
  using run_tame [OF newControls_tame assms] by (simp add: tameState_def)

lemma keepsRange_setYaw: "- 1 \<le> v \<Longrightarrow> v \<le> 1 \<Longrightarrow> keepsRange (setYaw v)"
  by (simp add: keepsRange_def setYaw_def inRange_def)

theorem C2_range_witness:
  "inRange (channels (run flightEvents newControls)) (motorThrusts (run flightEvents newControls))"
proof -
  have "\<forall>ev\<in>set flightEvents. tameEvent ev"
    by (simp add: flightEvents_def tameEntry_def entry_def keepsRange_setYaw)
  then show ?thesis by (rule C2_range_invariant)
qed

text \<open>
  Claim C2, as stated, at a script action that writes 5 into yaw: the engine does not clamp
  what a script action writes, and the value stands after the update that ran it.
\<close>

theorem C2_script_counterexample:
  "yaw (channels (run boostEvents newControls)) = 5 \<and>
   \<not> inRange (channels (run boostEvents newControls)) (motorThrusts (run boostEvents newControls))"
proof -
  let ?s0 = "scripted ''KeyB'' ''boost'' (JArray [entry 0 (setYaw 5)])"
  let ?inst = "\<lparr>instId = ''boost'', actions = [\<lparr>time = 0, action = setYaw 5\<rparr>],
                startTime = 0, nextActionIndex = 0\<rparr>"
  let ?s1 = "onKeyDown ''KeyB'' 0 ?s0"
  let ?u = "updateControlChannels offPad 16 ?s1"
  have r: "run boostEvents newControls = update offPad 16 16 ?s1"
    by (simp add: run_def boostEvents_def scripted_def)
  have a: "activeScripts ?s1 = [?inst]"
    by (simp add: onKeyDown_def truthyString_def executeScript_def scripted_eval1)
  have w: "whileDue 16 (?u, ?inst) =
      (fst (runAction (?u, ?inst) 16), ?inst\<lparr>nextActionIndex := Suc 0\<rparr>)"
    by (simp add: whileDue_unfold)
  have u: "update offPad 16 16 ?s1 = (fst (runAction (?u, ?inst) 16))\<lparr>activeScripts := []\<rparr>"
    by (simp add: update_def updateActiveScripts_def updateControlChannels_frame a w)
  have "channels (fst (runAction (?u, ?inst) 16)) =
      channels (handle.truncate (fst (runAction (?u, ?inst) 16)))"
    by (simp add: handle.truncate_def)
  then have "yaw (channels (fst (runAction (?u, ?inst) 16))) = 5"
    by (simp add: runAction_handle setYaw_def)
  then have y: "yaw (channels (run boostEvents newControls)) = 5"
    by (simp add: r u)
  then show ?thesis by (simp add: inRange_def)
qed

text \<open>
  A body at rest with identity orientation, the inputs of full throttle with all motor
  thrusts at 0.6125, and the calls that \<^verbatim>\<open>applyControlsToDrone\<close> made when it returned.
\<close>

section \<open>Thrust at zero tilt\<close>

lemma applyQuaternion_identity: "applyQuaternion v (Quaternion 0 0 0 1) = v"
  by (cases v) (simp add: applyQuaternion_def)

lemma unified_identity:
  assumes "\<not> useIndividualMotors st" and "rotation b = Quaternion 0 0 0 1"
  shows "applyControlsToDrone st (c, m) b =
           Inr (b\<lparr>forceCalls := forceCalls b @
                  [ApplyCentralForce (Vector3 0 (throttle c * maxThrust st) 0),
                   ApplyTorque (Vector3 (torqueStrength st * roll c)
                                        (torqueStrength st * - yaw c)
                                        (torqueStrength st * pitch c))]\<rparr>)"
  using assms by (simp add: applyControlsToDrone_def applyQuaternion_identity Let_def)

lemma perMotor_identity:
  assumes "useIndividualMotors st" and "rotation b = Quaternion 0 0 0 1"
    and "motorPositions st = [p1, p2, p3, p4]"
  shows "applyControlsToDrone st (c, m) b =
           Inr (b\<lparr>forceCalls := forceCalls b @
                  [ApplyForce (Vector3 0 (motor1 m * maxThrust st) 0) (add p1 (origin b)),
                   ApplyForce (Vector3 0 (motor2 m * maxThrust st) 0) (add p2 (origin b)),
                   ApplyForce (Vector3 0 (motor3 m * maxThrust st) 0) (add p3 (origin b)),
                   ApplyForce (Vector3 0 (motor4 m * maxThrust st) 0) (add p4 (origin b))]\<rparr>)"
  using assms
  by (simp add: applyControlsToDrone_def applyQuaternion_identity Let_def motorThrustOf_def)

text \<open>
  Claim C3, amended. With identity orientation, unified mode with throttle 1 applies the
  central force \<open>(0, M, 0)\<close> for \<open>M = maxThrust\<close>, of magnitude \<open>M\<close> along world-up, and the
  torque of the three channels; per-motor mode with four motor positions and all motor
  thrusts 0.6125 applies the force \<open>(0, 0.6125 M, 0)\<close> at each motor position moved by the
  body origin, and no torque call, so its net force is \<open>(0, 2.45 M, 0)\<close>.
\<close>

theorem C3_thrust_at_zero_tilt:
  assumes "rotation b = Quaternion 0 0 0 1"
  shows "(\<not> useIndividualMotors st \<and> throttle c = 1 \<longrightarrow>
            applyControlsToDrone st (c, m) b =
              Inr (b\<lparr>forceCalls := forceCalls b @
                     [ApplyCentralForce (Vector3 0 (maxThrust st) 0),
                      ApplyTorque (Vector3 (torqueStrength st * roll c)
                                           (torqueStrength st * - yaw c)
                                           (torqueStrength st * pitch c))]\<rparr>) \<and>
            netForce [ApplyCentralForce (Vector3 0 (maxThrust st) 0)] = Vector3 0 (maxThrust st) 0 \<and>
            (0 \<le> maxThrust st \<longrightarrow> vlength (Vector3 0 (maxThrust st) 0) = maxThrust st)) \<and>
         (useIndividualMotors st \<and> motorPositions st = [p1, p2, p3, p4] \<and>
          motor1 m = 0.6125 \<and> motor2 m = 0.6125 \<and> motor3 m = 0.6125 \<and> motor4 m = 0.6125 \<longrightarrow>
            (\<exists>new. applyControlsToDrone st (c, m) b = Inr (b\<lparr>forceCalls := forceCalls b @ new\<rparr>) \<and>
               new = [ApplyForce (Vector3 0 (0.6125 * maxThrust st) 0) (add p1 (origin b)),
                      ApplyForce (Vector3 0 (0.6125 * maxThrust st) 0) (add p2 (origin b)),
                      ApplyForce (Vector3 0 (0.6125 * maxThrust st) 0) (add p3 (origin b)),
                      ApplyForce (Vector3 0 (0.6125 * maxThrust st) 0) (add p4 (origin b))] \<and>
               netForce new = Vector3 0 (2.45 * maxThrust st) 0))"
proof (intro conjI impI)
  assume a: "\<not> useIndividualMotors st \<and> throttle c = 1"
  with assms show "applyControlsToDrone st (c, m) b =
      Inr (b\<lparr>forceCalls := forceCalls b @
        [ApplyCentralForce (Vector3 0 (maxThrust st) 0),
         ApplyTorque (Vector3 (torqueStrength st * roll c)
                              (torqueStrength st * - yaw c)
                              (torqueStrength st * pitch c))]\<rparr>)"
    by (simp add: unified_identity)
  show "netForce [ApplyCentralForce (Vector3 0 (maxThrust st) 0)] = Vector3 0 (maxThrust st) 0"
    by (simp add: add_def)
  assume "0 \<le> maxThrust st"
  then show "vlength (Vector3 0 (maxThrust st) 0) = maxThrust st"
    by (simp add: vlength_def)
next
  assume a: "useIndividualMotors st \<and> motorPositions st = [p1, p2, p3, p4] \<and>
    motor1 m = 0.6125 \<and> motor2 m = 0.6125 \<and> motor3 m = 0.6125 \<and> motor4 m = 0.6125"
  with assms perMotor_identity [of st b p1 p2 p3 p4 c m]
  show "\<exists>new. applyControlsToDrone st (c, m) b = Inr (b\<lparr>forceCalls := forceCalls b @ new\<rparr>) \<and>
      new = [ApplyForce (Vector3 0 (0.6125 * maxThrust st) 0) (add p1 (origin b)),
             ApplyForce (Vector3 0 (0.6125 * maxThrust st) 0) (add p2 (origin b)),
             ApplyForce (Vector3 0 (0.6125 * maxThrust st) 0) (add p3 (origin b)),
             ApplyForce (Vector3 0 (0.6125 * maxThrust st) 0) (add p4 (origin b))] \<and>
      netForce new = Vector3 0 (2.45 * maxThrust st) 0"
    by (simp add: add_def)
qed

lemma trim_calls:
  "callsOf (applyControlsToDrone defaultSettings trimInputs trimBody) =
     [ApplyCentralForce (Vector3 0 1 0), ApplyTorque (Vector3 0 0 0)]"
  "callsOf (applyControlsToDrone (defaultSettings\<lparr>useIndividualMotors := True\<rparr>) trimInputs trimBody) =
     [ApplyForce (Vector3 0 0.6125 0) (Vector3 1 10 1),
      ApplyForce (Vector3 0 0.6125 0) (Vector3 (- 1) 10 1),
      ApplyForce (Vector3 0 0.6125 0) (Vector3 (- 1) 10 (- 1)),
      ApplyForce (Vector3 0 0.6125 0) (Vector3 1 10 (- 1))]"
  by (simp_all add: callsOf_def trimInputs_def trimBody_def defaultSettings_def
      applyControlsToDrone_def applyQuaternion_def motorThrustOf_def add_def Let_def)

text \<open>
  Claim C3, as stated, at the default settings (\<open>maxThrust = 1\<close>) with the body at rest and
  level: the net force of unified mode at throttle 1 is \<open>(0, 1, 0)\<close>, that of per-motor mode
  at thrusts 0.6125 is \<open>(0, 2.45, 0)\<close>.
\<close>

theorem C3_modes_differ_counterexample:
  "netForce (callsOf (applyControlsToDrone defaultSettings trimInputs trimBody)) = Vector3 0 1 0 \<and>
   netForce (callsOf (applyControlsToDrone (defaultSettings\<lparr>useIndividualMotors := True\<rparr>)
      trimInputs trimBody)) = Vector3 0 2.45 0 \<and>
   netForce (callsOf (applyControlsToDrone defaultSettings trimInputs trimBody)) \<noteq>
   netForce (callsOf (applyControlsToDrone (defaultSettings\<lparr>useIndividualMotors := True\<rparr>)
      trimInputs trimBody))"
  by (simp add: trim_calls add_def)

theorem C3_thrust_witness:
  "callsOf (applyControlsToDrone defaultSettings trimInputs trimBody) =
     [ApplyCentralForce (Vector3 0 1 0), ApplyTorque (Vector3 0 0 0)] \<and>
   vlength (Vector3 0 (maxThrust defaultSettings) 0) = 1 \<and>
   netForce (callsOf (applyControlsToDrone (defaultSettings\<lparr>useIndividualMotors := True\<rparr>)
      trimInputs trimBody)) = Vector3 0 2.45 0"
proof -
  have r: "rotation trimBody = Quaternion 0 0 0 1" by (simp add: trimBody_def)
  note u = C3_thrust_at_zero_tilt [OF r, where st = defaultSettings
      and c = "fst trimInputs" and m = "snd trimInputs"]
  note p = C3_thrust_at_zero_tilt [OF r, where st = "defaultSettings\<lparr>useIndividualMotors := True\<rparr>"
      and c = "fst trimInputs" and m = "snd trimInputs"
      and ?p1.0 = "Vector3 1 0 1" and ?p2.0 = "Vector3 (- 1) 0 1"
      and ?p3.0 = "Vector3 (- 1) 0 (- 1)" and ?p4.0 = "Vector3 1 0 (- 1)"]
  have hu: "\<not> useIndividualMotors defaultSettings \<and> throttle (fst trimInputs) = 1"
    "0 \<le> maxThrust defaultSettings" "maxThrust defaultSettings = 1"
    by (simp_all add: defaultSettings_def trimInputs_def)
  have hp: "useIndividualMotors (defaultSettings\<lparr>useIndividualMotors := True\<rparr>) \<and>
      motorPositions (defaultSettings\<lparr>useIndividualMotors := True\<rparr>) =
        [Vector3 1 0 1, Vector3 (- 1) 0 1, Vector3 (- 1) 0 (- 1), Vector3 1 0 (- 1)] \<and>
      motor1 (snd trimInputs) = 0.6125 \<and> motor2 (snd trimInputs) = 0.6125 \<and>
      motor3 (snd trimInputs) = 0.6125 \<and> motor4 (snd trimInputs) = 0.6125"
    by (simp add: defaultSettings_def trimInputs_def)
  from u hu have 1: "vlength (Vector3 0 (maxThrust defaultSettings) 0) = 1"
    by simp
  from p hp obtain new where
    n: "applyControlsToDrone (defaultSettings\<lparr>useIndividualMotors := True\<rparr>)
          (fst trimInputs, snd trimInputs) trimBody = Inr (trimBody\<lparr>forceCalls := forceCalls trimBody @ new\<rparr>)"
       "netForce new = Vector3 0 (2.45 * maxThrust (defaultSettings\<lparr>useIndividualMotors := True\<rparr>)) 0"
    by blast
  have 2: "netForce (callsOf (applyControlsToDrone (defaultSettings\<lparr>useIndividualMotors := True\<rparr>)
      trimInputs trimBody)) = Vector3 0 2.45 0"
    using n by (simp add: callsOf_def trimBody_def defaultSettings_def)
  from 1 2 show ?thesis by (simp add: trim_calls)
qed

section \<open>Velocity limits after a step\<close>

lemma vlength_scale:
  "vlength (Vector3 (vx v * k) (vy v * k) (vz v * k)) = \<bar>k\<bar> * vlength v"
proof -
  have "vx v * k * (vx v * k) + vy v * k * (vy v * k) + vz v * k * (vz v * k) =
        (k * k) * (vx v * vx v + vy v * vy v + vz v * vz v)"
    by (simp add: algebra_simps)
  then show ?thesis
    by (simp add: vlength_def real_sqrt_mult)
qed

lemma limitVelocity_over:
  assumes "0 < cap" and "cap < vlength v"
  shows "limitVelocity cap v =
           Vector3 (vx v * (cap / vlength v)) (vy v * (cap / vlength v)) (vz v * (cap / vlength v))"
    and "vlength (limitVelocity cap v) = cap"
    and "direction (limitVelocity cap v) = direction v"
proof -
  let ?k = "cap / vlength v"
  from assms have l: "0 < vlength v" by simp
  with assms have k: "0 < ?k" by simp
  show e: "limitVelocity cap v = Vector3 (vx v * ?k) (vy v * ?k) (vz v * ?k)"
    using assms by (simp add: limitVelocity_def Let_def)
  have "vlength (limitVelocity cap v) = \<bar>?k\<bar> * vlength v"
    by (simp only: e vlength_scale)
  with k l assms(1) show n: "vlength (limitVelocity cap v) = cap"
    by simp
  from assms l show "direction (limitVelocity cap v) = direction v"
    unfolding direction_def n by (simp add: e)
qed

lemma limitVelocity_under:
  assumes "vlength v \<le> cap"
  shows "limitVelocity cap v = v"
  using assms by (simp add: limitVelocity_def Let_def)

text \<open>
  Claim C4. With positive limits, for every tracked body with a motion state: a linear
  (angular) velocity longer than its limit comes out with exactly the length of the limit
  and the same unit vector, and one not longer than the limit comes out unchanged.
\<close>

theorem C4_velocities_limited:
  assumes "0 < maxVelocity st" and "0 < maxAngularVelocity st"
    and "i < length rigidBodies" and "hasMotionState (rigidBodies ! i)"
  shows "(maxVelocity st < vlength (linearVelocity (rigidBodies ! i)) \<longrightarrow>
            vlength (linearVelocity (updateMeshPositions st rigidBodies ! i)) = maxVelocity st \<and>
            direction (linearVelocity (updateMeshPositions st rigidBodies ! i)) =
              direction (linearVelocity (rigidBodies ! i))) \<and>
         (vlength (linearVelocity (rigidBodies ! i)) \<le> maxVelocity st \<longrightarrow>
            linearVelocity (updateMeshPositions st rigidBodies ! i) =
              linearVelocity (rigidBodies ! i)) \<and>
         (maxAngularVelocity st < vlength (angularVelocity (rigidBodies ! i)) \<longrightarrow>
            vlength (angularVelocity (updateMeshPositions st rigidBodies ! i)) = maxAngularVelocity st \<and>
            direction (angularVelocity (updateMeshPositions st rigidBodies ! i)) =
              direction (angularVelocity (rigidBodies ! i))) \<and>
         (vlength (angularVelocity (rigidBodies ! i)) \<le> maxAngularVelocity st \<longrightarrow>
            angularVelocity (updateMeshPositions st rigidBodies ! i) =
              angularVelocity (rigidBodies ! i))"
  using assms
  by (simp add: updateMeshPositions_def updateMesh_def limitVelocity_over(2,3) limitVelocity_under)

lemma sqrt_6400: "sqrt 6400 = 80"
  by (rule real_sqrt_unique) simp_all

lemma sqrt_400: "sqrt 400 = 20"
  by (rule real_sqrt_unique) simp_all

theorem C4_velocities_witness:
  "vlength (linearVelocity fastBody) = 80 \<and>
   vlength (linearVelocity (updateMeshPositions defaultSettings [fastBody] ! 0)) = 50 \<and>
   linearVelocity (updateMeshPositions defaultSettings [fastBody] ! 0) = Vector3 30 40 0 \<and>
   direction (linearVelocity (updateMeshPositions defaultSettings [fastBody] ! 0)) =
     direction (linearVelocity fastBody) \<and>
   vlength (angularVelocity (updateMeshPositions defaultSettings [fastBody] ! 0)) = 10 \<and>
   linearVelocity (updateMeshPositions defaultSettings [trimBody] ! 0) = Vector3 0 0 0 \<and>
   angularVelocity (updateMeshPositions defaultSettings [trimBody] ! 0) = Vector3 0 0 0"
proof -
  have c: "0 < maxVelocity defaultSettings" "0 < maxAngularVelocity defaultSettings"
    "maxVelocity defaultSettings = 50" "maxAngularVelocity defaultSettings = 10"
    by (simp_all add: defaultSettings_def)
  have f: "(0::nat) < length [fastBody]" "hasMotionState ([fastBody] ! 0)"
    "(0::nat) < length [trimBody]" "hasMotionState ([trimBody] ! 0)"
    by (simp_all add: fastBody_def trimBody_def)
  have v: "vlength (linearVelocity fastBody) = 80" "vlength (angularVelocity fastBody) = 20"
    "vlength (linearVelocity trimBody) = 0" "vlength (angularVelocity trimBody) = 0"
    by (simp_all add: fastBody_def trimBody_def vlength_def sqrt_6400 sqrt_400)
  note t = C4_velocities_limited [OF c(1) c(2) f(1) f(2)]
  note t0 = C4_velocities_limited [OF c(1) c(2) f(3) f(4)]
  from t v c have 1: "vlength (linearVelocity (updateMeshPositions defaultSettings [fastBody] ! 0)) = 50"
    "direction (linearVelocity (updateMeshPositions defaultSettings [fastBody] ! 0)) =
       direction (linearVelocity fastBody)"
    "vlength (angularVelocity (updateMeshPositions defaultSettings [fastBody] ! 0)) = 10"
    by simp_all
  from t0 v c have 2: "linearVelocity (updateMeshPositions defaultSettings [trimBody] ! 0) = Vector3 0 0 0"
    "angularVelocity (updateMeshPositions defaultSettings [trimBody] ! 0) = Vector3 0 0 0"
    by (simp_all add: trimBody_def)
  have 3: "linearVelocity (updateMeshPositions defaultSettings [fastBody] ! 0) = Vector3 30 40 0"
    using v(1) by (simp add: updateMeshPositions_def updateMesh_def limitVelocity_def c Let_def)
      (simp add: fastBody_def trimBody_def)
  from v(1) 1 2 3 show ?thesis by simp
qed

end
